theory Spec2Isabelle
  imports Main "HOL-Library.Word" "HOL-Library.Sublist"
begin

section \<open>Go strings as byte sequences\<close>

text \<open>
  A Go \<^verbatim>\<open>string\<close> is a sequence of bytes and \<^verbatim>\<open>len\<close> counts bytes; the model uses
  \<^typ>\<open>string\<close>, whose characters are 8-bit.  The library functions the repository calls
  (\<^verbatim>\<open>strings.TrimSpace\<close>, \<^verbatim>\<open>strings.Contains\<close>, the conversion \<^verbatim>\<open>string(rune(n))\<close>)
  are modelled on bytes, following the Go standard library.
\<close>

text \<open>
  The UTF-8 encodings of the code points for which \<^verbatim>\<open>unicode.IsSpace\<close> holds:
  U+0009..U+000D, U+0020, U+0085, U+00A0, U+1680, U+2000..U+200A, U+2028, U+2029,
  U+202F, U+205F and U+3000.
\<close>

definition unicodeSpaces :: "string list" where
  "unicodeSpaces =
    [[CHR 0x09], [CHR 0x0A], [CHR 0x0B], [CHR 0x0C], [CHR 0x0D], [CHR 0x20],
     [CHR 0xC2, CHR 0x85], [CHR 0xC2, CHR 0xA0],
     [CHR 0xE1, CHR 0x9A, CHR 0x80],
     [CHR 0xE2, CHR 0x80, CHR 0x80], [CHR 0xE2, CHR 0x80, CHR 0x81],
     [CHR 0xE2, CHR 0x80, CHR 0x82], [CHR 0xE2, CHR 0x80, CHR 0x83],
     [CHR 0xE2, CHR 0x80, CHR 0x84], [CHR 0xE2, CHR 0x80, CHR 0x85],
     [CHR 0xE2, CHR 0x80, CHR 0x86], [CHR 0xE2, CHR 0x80, CHR 0x87],
     [CHR 0xE2, CHR 0x80, CHR 0x88], [CHR 0xE2, CHR 0x80, CHR 0x89],
     [CHR 0xE2, CHR 0x80, CHR 0x8A],
     [CHR 0xE2, CHR 0x80, CHR 0xA8], [CHR 0xE2, CHR 0x80, CHR 0xA9],
     [CHR 0xE2, CHR 0x80, CHR 0xAF],
     [CHR 0xE2, CHR 0x81, CHR 0x9F],
     [CHR 0xE3, CHR 0x80, CHR 0x80]]"

lemma unicodeSpaces_nonempty: "p \<in> set unicodeSpaces \<Longrightarrow> p \<noteq> []"
  by (auto simp: unicodeSpaces_def)

lemma find_Some_mem: "find P xs = Some x \<Longrightarrow> x \<in> set xs \<and> P x"
  by (induction xs) (auto split: if_splits)

lemma find_unicodeSpaces_nonempty: "find P unicodeSpaces = Some p \<Longrightarrow> p \<noteq> []"
  by (drule find_Some_mem) (simp add: unicodeSpaces_nonempty)

text \<open>
  \<^verbatim>\<open>strings.TrimLeftFunc(s, unicode.IsSpace)\<close>: runes are decoded from the front and
  dropped while they are white space.  A white-space rune at the front is exactly one
  of the encodings above standing as a prefix; an invalid byte decodes to U+FFFD, which
  is not white space, and stops the scan.
\<close>

function trimLeftSpace :: "string \<Rightarrow> string" where
  "trimLeftSpace s =
     (case find (\<lambda>p. prefix p s) unicodeSpaces of
        None \<Rightarrow> s
      | Some p \<Rightarrow> trimLeftSpace (drop (length p) s))"
  by pat_completeness auto
termination
proof (relation "measure length")
  show "wf (measure length)" by simp
next
  fix s p
  assume f: "find (\<lambda>p. prefix p s) unicodeSpaces = Some p"
  then have "p \<noteq> []" by (rule find_unicodeSpaces_nonempty)
  moreover from find_Some_mem [OF f] have "prefix p s" by simp
  ultimately have "length (drop (length p) s) < length s"
    by (cases p) (auto simp: prefix_def)
  then show "(drop (length p) s, s) \<in> measure length" by simp
qed

declare trimLeftSpace.simps [simp del]

text \<open>
  \<^verbatim>\<open>strings.TrimRightFunc(s, unicode.IsSpace)\<close>: runes are decoded from the back
  (\<^verbatim>\<open>utf8.DecodeLastRuneInString\<close>); a white-space rune at the back is one of the
  encodings standing as a suffix.
\<close>

function trimRightSpace :: "string \<Rightarrow> string" where
  "trimRightSpace s =
     (case find (\<lambda>p. suffix p s) unicodeSpaces of
        None \<Rightarrow> s
      | Some p \<Rightarrow> trimRightSpace (take (length s - length p) s))"
  by pat_completeness auto
termination
proof (relation "measure length")
  show "wf (measure length)" by simp
next
  fix s p
  assume f: "find (\<lambda>p. suffix p s) unicodeSpaces = Some p"
  then have "p \<noteq> []" by (rule find_unicodeSpaces_nonempty)
  moreover from find_Some_mem [OF f] have "suffix p s" by simp
  ultimately have "length (take (length s - length p) s) < length s"
    by (cases p) (auto simp: suffix_def)
  then show "(take (length s - length p) s, s) \<in> measure length" by simp
qed

declare trimRightSpace.simps [simp del]

text \<open>\<^verbatim>\<open>strings.TrimSpace\<close>: leading white space is removed first, then trailing.\<close>

definition TrimSpace :: "string \<Rightarrow> string" where
  "TrimSpace s = trimRightSpace (trimLeftSpace s)"

text \<open>\<^verbatim>\<open>strings.Contains(s, substr)\<close>: \<open>substr\<close> occurs in \<open>s\<close> at some offset.\<close>

fun Contains :: "string \<Rightarrow> string \<Rightarrow> bool" where
  "Contains [] sub = (sub = [])"
| "Contains (c # cs) sub = (prefix sub (c # cs) \<or> Contains cs sub)"

text \<open>
  The conversion \<^verbatim>\<open>rune(n)\<close> of a Go \<^verbatim>\<open>int\<close> keeps the low 32 bits, read as a
  signed number.
\<close>

definition rune :: "int \<Rightarrow> int" where
  "rune n = sint (word_of_int n :: 32 word)"

text \<open>
  The conversion \<^verbatim>\<open>string(r)\<close> of a rune is the UTF-8 encoding of the code point;
  a value that is no valid code point (negative, above U+10FFFF, or a surrogate) is
  encoded as U+FFFD.
\<close>

definition runeString :: "int \<Rightarrow> string" where
  "runeString r =
     (if r < 0 \<or> 0x10FFFF < r \<or> (0xD800 \<le> r \<and> r \<le> 0xDFFF)
        then [CHR 0xEF, CHR 0xBF, CHR 0xBD]
      else if r < 0x80 then [char_of r]
      else if r < 0x800 then [char_of (0xC0 + r div 0x40), char_of (0x80 + r mod 0x40)]
      else if r < 0x10000 then
        [char_of (0xE0 + r div 0x1000), char_of (0x80 + r div 0x40 mod 0x40),
         char_of (0x80 + r mod 0x40)]
      else
        [char_of (0xF0 + r div 0x40000), char_of (0x80 + r div 0x1000 mod 0x40),
         char_of (0x80 + r div 0x40 mod 0x40), char_of (0x80 + r mod 0x40)])"

section \<open>Request parameters and the cache key\<close>

record GetHatenaBookmarksParams =
  Username :: string
  Tag :: string
  Date :: string
  URL :: string
  Page :: int

definition GenerateCacheKey :: "GetHatenaBookmarksParams \<Rightarrow> string" where
  "GenerateCacheKey params =
     (let key = Username params;
          key = (if Tag params \<noteq> [] then key @ ''_tag:'' @ Tag params else key);
          key = (if Date params \<noteq> [] then key @ ''_date:'' @ Date params else key);
          key = (if URL params \<noteq> [] then key @ ''_url:'' @ URL params else key);
          key = (if Page params > 0 then key @ ''_page:'' @ runeString (rune (Page params))
                 else key)
      in key)"

section \<open>The result cache\<close>

text \<open>
  Instants and durations are integers (nanoseconds on the monotonic clock).  Every
  operation reads \<^verbatim>\<open>time.Now()\<close> once; the reading is the argument \<open>now\<close>.  The cached
  value is a pointer the cache never looks into, hence a type parameter.
\<close>

record 'v CacheEntry =
  Data :: 'v
  ExpiresAt :: int

record 'v Cache =
  entries :: "string \<rightharpoonup> 'v CacheEntry"
  ttl :: int

definition NewCache :: "int \<Rightarrow> 'v Cache" where
  "NewCache d = \<lparr>entries = Map.empty, ttl = d\<rparr>"

definition Get :: "'v Cache \<Rightarrow> int \<Rightarrow> string \<Rightarrow> 'v option" where
  "Get c now key =
     (case entries c key of
        None \<Rightarrow> None
      | Some entry \<Rightarrow> if now > ExpiresAt entry then None else Some (Data entry))"

definition Set :: "'v Cache \<Rightarrow> int \<Rightarrow> string \<Rightarrow> 'v \<Rightarrow> 'v Cache" where
  "Set c now key data =
     c\<lparr>entries := (entries c)(key \<mapsto> \<lparr>Data = data, ExpiresAt = now + ttl c\<rparr>)\<rparr>"

definition Delete :: "'v Cache \<Rightarrow> string \<Rightarrow> 'v Cache" where
  "Delete c key = c\<lparr>entries := (entries c)(key := None)\<rparr>"

text \<open>One round of the background sweep (\<^verbatim>\<open>cleanup\<close>, run from a ticker).\<close>

definition cleanup :: "'v Cache \<Rightarrow> int \<Rightarrow> 'v Cache" where
  "cleanup c now =
     c\<lparr>entries := (\<lambda>key. case entries c key of
                       None \<Rightarrow> None
                     | Some entry \<Rightarrow> if now > ExpiresAt entry then None else Some entry)\<rparr>"


section \<open>Errors\<close>

datatype ErrorCode = ErrorCodeValidation | ErrorCodeNetwork | ErrorCodeParsing | ErrorCodeAPI

text \<open>
  \<^verbatim>\<open>Details\<close> is a \<^verbatim>\<open>map[string]interface{}\<close> built from a literal; the model keeps the
  pairs of the literal in the order they are written.
\<close>

datatype detail = DString string | DInt int

record MCPError =
  Code :: ErrorCode
  Message :: string
  Details :: "(string \<times> detail) list"

section \<open>Library functions used by the validators\<close>

definition isDigit :: "char \<Rightarrow> bool" where
  "isDigit c \<longleftrightarrow> (48::nat) \<le> of_char c \<and> of_char c \<le> (57::nat)"

definition digitsValue :: "string \<Rightarrow> int" where
  "digitsValue ds = foldl (\<lambda>acc c. 10 * acc + (int (of_char c) - 48)) 0 ds"

text \<open>
  \<^verbatim>\<open>strconv.Atoi\<close>: an optional sign and at least one decimal digit, the value within
  64 bits; \<open>None\<close> stands for a non-nil error.
\<close>

definition Atoi :: "string \<Rightarrow> int option" where
  "Atoi s =
     (let (neg, ds) =
        (case s of
           [] \<Rightarrow> (False, [])
         | c # cs \<Rightarrow> if c = CHR ''-'' then (True, cs)
                     else if c = CHR ''+'' then (False, cs) else (False, s))
      in if ds = [] \<or> \<not> list_all isDigit ds then None
         else let v = (if neg then - digitsValue ds else digitsValue ds)
              in if v < - (2 ^ 63) \<or> 2 ^ 63 - 1 < v then None else Some v)"

text \<open>\<^verbatim>\<open>isLeap\<close> and \<^verbatim>\<open>daysIn\<close> of Go's \<^verbatim>\<open>time\<close> package.\<close>

definition isLeap :: "int \<Rightarrow> bool" where
  "isLeap year \<longleftrightarrow> year mod 4 = 0 \<and> (year mod 100 \<noteq> 0 \<or> year mod 400 = 0)"

definition daysIn :: "int \<Rightarrow> int \<Rightarrow> int" where
  "daysIn m year =
     (if m = 2 then (if isLeap year then 29 else 28)
      else if m = 4 \<or> m = 6 \<or> m = 9 \<or> m = 11 then 30 else 31)"

text \<open>
  \<^verbatim>\<open>time.Parse("20060102", value)\<close>: four digits of year, two of month, two of day and
  nothing else; the month must lie in 1..12 and the day in 1..\<^verbatim>\<open>daysIn\<close>.  The result
  is the triple (year, month, day); \<open>None\<close> stands for a non-nil error.  Where
  \<^verbatim>\<open>ValidateDate\<close> calls it, the text is eight digits with month in 1..12 and day in
  1..31, so the only error left is the day being out of range for the month.
\<close>

definition time_Parse_20060102 :: "string \<Rightarrow> (int \<times> int \<times> int) option" where
  "time_Parse_20060102 v =
     (if length v \<noteq> 8 \<or> \<not> list_all isDigit v then None
      else let year = digitsValue (take 4 v);
               month = digitsValue (take 2 (drop 4 v));
               day = digitsValue (drop 6 v)
           in if month < 1 \<or> 12 < month then None
              else if day < 1 \<or> daysIn month year < day then None
              else Some (year, month, day))"

text \<open>
  \<^verbatim>\<open>url.Parse\<close> is a parameter of the model: it maps the text to an error message or to
  the scheme and host of the parsed URL.
\<close>

record ParsedURL =
  Scheme :: string
  Host :: string

type_synonym url_Parse = "string \<Rightarrow> string + ParsedURL"

section \<open>The validator of package utils\<close>

text \<open>
  The regular expression \<^verbatim>\<open>^[a-zA-Z0-9\-]+$\<close> matches a string that is not empty and
  consists of ASCII letters, digits and hyphens.  A byte above 0x7F belongs to a rune
  outside the class, so the test can be made byte by byte.
\<close>

definition isUsernameChar :: "char \<Rightarrow> bool" where
  "isUsernameChar c \<longleftrightarrow>
     (let r = of_char c :: nat
      in (97 \<le> r \<and> r \<le> 122) \<or> (65 \<le> r \<and> r \<le> 90) \<or> (48 \<le> r \<and> r \<le> 57) \<or> r = 45)"

definition validUsernameRegex :: "string \<Rightarrow> bool" where
  "validUsernameRegex s \<longleftrightarrow> s \<noteq> [] \<and> list_all isUsernameChar s"

definition ValidateUsername :: "string \<Rightarrow> MCPError option" where
  "ValidateUsername username0 =
     (let username = TrimSpace username0
      in if username = [] then
           Some \<lparr>Code = ErrorCodeValidation, Message = ''Username is required'',
                 Details = [(''field'', DString ''username'')]\<rparr>
         else if length username > 50 then
           Some \<lparr>Code = ErrorCodeValidation,
                 Message = ''Username must be 50 characters or less'',
                 Details = [(''username'', DString username),
                            (''length'', DInt (int (length username)))]\<rparr>
         else if \<not> validUsernameRegex username then
           Some \<lparr>Code = ErrorCodeValidation,
                 Message = ''Username must contain only alphanumeric characters and hyphens'',
                 Details = [(''username'', DString username)]\<rparr>
         else None)"

definition ValidateTag :: "string \<Rightarrow> MCPError option" where
  "ValidateTag tag0 =
     (let tag = TrimSpace tag0
      in if length tag > 100 then
           Some \<lparr>Code = ErrorCodeValidation, Message = ''Tag must be 100 characters or less'',
                 Details = [(''tag'', DString tag), (''length'', DInt (int (length tag)))]\<rparr>
         else case find (\<lambda>ch. Contains tag ch) [''<'', ''>'', [CHR 0x22], [CHR 0x27], ''&''] of
                Some ch \<Rightarrow>
                  Some \<lparr>Code = ErrorCodeValidation, Message = ''Tag contains invalid characters'',
                        Details = [(''tag'', DString tag), (''invalid_char'', DString ch)]\<rparr>
              | None \<Rightarrow> None)"

text \<open>
  \<open>nowYear\<close> is the reading of \<^verbatim>\<open>time.Now().Year()\<close>.  The loop over the runes of the
  date runs after the length test; a byte that is no ASCII digit belongs to a rune that
  is none, so the test is made byte by byte.
\<close>

definition ValidateDate :: "int \<Rightarrow> string \<Rightarrow> MCPError option" where
  "ValidateDate nowYear date0 =
     (let date = TrimSpace date0
      in if length date \<noteq> 8 then
           Some \<lparr>Code = ErrorCodeValidation, Message = ''Date must be in YYYYMMDD format'',
                 Details = [(''date'', DString date),
                            (''expected_format'', DString ''YYYYMMDD'')]\<rparr>
         else if \<not> list_all isDigit date then
           Some \<lparr>Code = ErrorCodeValidation,
                 Message = ''Date must contain only numeric characters'',
                 Details = [(''date'', DString date)]\<rparr>
         else
           let year = Atoi (take 4 date)
           in if year = None \<or> the year < 1900 \<or> the year > nowYear + 1 then
                Some \<lparr>Code = ErrorCodeValidation, Message = ''Invalid year in date'',
                      Details = [(''date'', DString date),
                                 (''year'', DInt (case year of None \<Rightarrow> 0 | Some y \<Rightarrow> y))]\<rparr>
              else
                let month = Atoi (take 2 (drop 4 date))
                in if month = None \<or> the month < 1 \<or> the month > 12 then
                     Some \<lparr>Code = ErrorCodeValidation, Message = ''Invalid month in date'',
                           Details = [(''date'', DString date),
                                      (''month'', DInt (case month of None \<Rightarrow> 0 | Some m \<Rightarrow> m))]\<rparr>
                   else
                     let day = Atoi (take 2 (drop 6 date))
                     in if day = None \<or> the day < 1 \<or> the day > 31 then
                          Some \<lparr>Code = ErrorCodeValidation, Message = ''Invalid day in date'',
                                Details = [(''date'', DString date),
                                           (''day'', DInt (case day of None \<Rightarrow> 0 | Some d \<Rightarrow> d))]\<rparr>
                        else if time_Parse_20060102 date = None then
                          Some \<lparr>Code = ErrorCodeValidation, Message = ''Invalid date'',
                                Details = [(''date'', DString date),
                                           (''error'',
                                            DString (''parsing time '' @ [CHR 0x22] @ date @
                                                     [CHR 0x22] @ '': day out of range''))]\<rparr>
                        else None)"

definition ValidateURL :: "url_Parse \<Rightarrow> string \<Rightarrow> MCPError option" where
  "ValidateURL urlParse urlStr0 =
     (let urlStr = TrimSpace urlStr0
      in if length urlStr > 2000 then
           Some \<lparr>Code = ErrorCodeValidation, Message = ''URL must be 2000 characters or less'',
                 Details = [(''url'', DString urlStr),
                            (''length'', DInt (int (length urlStr)))]\<rparr>
         else case urlParse urlStr of
           Inl err \<Rightarrow>
             Some \<lparr>Code = ErrorCodeValidation, Message = ''Invalid URL format'',
                   Details = [(''url'', DString urlStr), (''error'', DString err)]\<rparr>
         | Inr parsedURL \<Rightarrow>
             if Scheme parsedURL = [] then
               Some \<lparr>Code = ErrorCodeValidation,
                     Message = ''URL must include scheme (http:// or https://)'',
                     Details = [(''url'', DString urlStr)]\<rparr>
             else if Host parsedURL = [] then
               Some \<lparr>Code = ErrorCodeValidation, Message = ''URL must include host'',
                     Details = [(''url'', DString urlStr)]\<rparr>
             else if Scheme parsedURL \<noteq> ''http'' \<and> Scheme parsedURL \<noteq> ''https'' then
               Some \<lparr>Code = ErrorCodeValidation, Message = ''URL scheme must be http or https'',
                     Details = [(''url'', DString urlStr),
                                (''scheme'', DString (Scheme parsedURL))]\<rparr>
             else None)"

definition ValidatePage :: "int \<Rightarrow> MCPError option" where
  "ValidatePage page =
     (if page < 0 then
        Some \<lparr>Code = ErrorCodeValidation, Message = ''Page number must be positive'',
              Details = [(''page'', DInt page)]\<rparr>
      else if page > 10000 then
        Some \<lparr>Code = ErrorCodeValidation,
              Message = ''Page number is too large (maximum: 10000)'',
              Details = [(''page'', DInt page)]\<rparr>
      else None)"

definition ValidateGetBookmarksParams ::
    "url_Parse \<Rightarrow> int \<Rightarrow> GetHatenaBookmarksParams \<Rightarrow> MCPError option" where
  "ValidateGetBookmarksParams urlParse nowYear params =
     (case ValidateUsername (Username params) of
        Some err \<Rightarrow> Some err
      | None \<Rightarrow>
     (case (if Tag params \<noteq> [] then ValidateTag (Tag params) else None) of
        Some err \<Rightarrow> Some err
      | None \<Rightarrow>
     (case (if Date params \<noteq> [] then ValidateDate nowYear (Date params) else None) of
        Some err \<Rightarrow> Some err
      | None \<Rightarrow>
     (case (if URL params \<noteq> [] then ValidateURL urlParse (URL params) else None) of
        Some err \<Rightarrow> Some err
      | None \<Rightarrow> ValidatePage (Page params)))))"

section \<open>The validation of the bookmark service\<close>

text \<open>
  \<^verbatim>\<open>BookmarkService.GetBookmarks\<close> calls its own \<^verbatim>\<open>validateParams\<close> before it builds
  the request URL; an error returned here ends the request.  The loops over runes are
  again made byte by byte.
\<close>

definition isValidUsername :: "string \<Rightarrow> bool" where
  "isValidUsername username \<longleftrightarrow>
     list_all (\<lambda>c. let r = of_char c :: nat
                   in \<not> ((r < 97 \<or> r > 122) \<and> (r < 65 \<or> r > 90) \<and> (r < 48 \<or> r > 57) \<and> r \<noteq> 45))
       username
     \<and> length username > 0"

definition isValidDateFormat :: "string \<Rightarrow> bool" where
  "isValidDateFormat date \<longleftrightarrow>
     (if length date \<noteq> 8 then False
      else if \<not> list_all (\<lambda>c. \<not> ((of_char c :: nat) < 48 \<or> (of_char c :: nat) > 57)) date then False
      else True)"

definition isValidURL :: "url_Parse \<Rightarrow> string \<Rightarrow> bool" where
  "isValidURL urlParse urlStr \<longleftrightarrow>
     (case urlParse urlStr of
        Inl err \<Rightarrow> False
      | Inr u \<Rightarrow> Scheme u \<noteq> [] \<and> Host u \<noteq> [])"

definition validateParams :: "url_Parse \<Rightarrow> GetHatenaBookmarksParams \<Rightarrow> MCPError option" where
  "validateParams urlParse params =
     (if TrimSpace (Username params) = [] then
        Some \<lparr>Code = ErrorCodeValidation, Message = ''Username is required'',
              Details = [(''field'', DString ''username'')]\<rparr>
      else if \<not> isValidUsername (Username params) then
        Some \<lparr>Code = ErrorCodeValidation,
              Message = ''Username must contain only alphanumeric characters and hyphens'',
              Details = [(''username'', DString (Username params))]\<rparr>
      else if Date params \<noteq> [] \<and> \<not> isValidDateFormat (Date params) then
        Some \<lparr>Code = ErrorCodeValidation, Message = ''Date must be in YYYYMMDD format'',
              Details = [(''date'', DString (Date params))]\<rparr>
      else if URL params \<noteq> [] \<and> \<not> isValidURL urlParse (URL params) then
        Some \<lparr>Code = ErrorCodeValidation, Message = ''Invalid URL format'',
              Details = [(''url'', DString (URL params))]\<rparr>
      else if Page params < 0 then
        Some \<lparr>Code = ErrorCodeValidation, Message = ''Page number must be positive'',
              Details = [(''page'', DInt (Page params))]\<rparr>
      else None)"


section \<open>Feed documents and bookmarks\<close>

record BookmarkItem =
  bTitle :: string
  bURL :: string
  BookmarkedAt :: string
  Tags :: "string list"
  Comment :: string

record Item =
  iTitle :: string
  iLink :: string
  iDescription :: string
  PubDate :: string
  Subjects :: "string list"

record Channel =
  cTitle :: string
  cLink :: string
  cDescription :: string
  cItems :: "Item list"

record RSS =
  Version :: string
  RSS_Channel :: Channel

record RDFItem =
  rAbout :: string
  rTitle :: string
  rLink :: string
  rDescription :: string
  Creator :: string
  rDate :: string
  Subject :: string
  BookmarkCount :: int
  ContentEncoded :: string

record RDFChannel =
  rcAbout :: string
  rcTitle :: string
  rcLink :: string
  rcDescription :: string
  rcResources :: "string list"

record RDF =
  RDF_Channel :: RDFChannel
  RDF_Items :: "RDFItem list"

record ParsedRSSData =
  pTitle :: string
  pItems :: "BookmarkItem list"
  ItemCount :: int

text \<open>An \<^verbatim>\<open>error\<close> value is either made by \<^verbatim>\<open>fmt.Errorf\<close> or is an \<^verbatim>\<open>*MCPError\<close>.\<close>

datatype go_error = Errorf string | MCP MCPError

section \<open>Time\<close>

text \<open>
  A \<^verbatim>\<open>time.Time\<close> as its calendar fields; \<open>tOffset\<close> is the zone offset in seconds east
  of UTC.
\<close>

record Time =
  tYear :: int
  tMonth :: int
  tDay :: int
  tHour :: int
  tMinute :: int
  tSecond :: int
  tOffset :: int

definition digitChar :: "nat \<Rightarrow> char" where
  "digitChar d = char_of (48 + d)"

fun decDigits :: "nat \<Rightarrow> string" where
  "decDigits n = (if n < 10 then [digitChar n] else decDigits (n div 10) @ [digitChar (n mod 10)])"

declare decDigits.simps [simp del]

text \<open>\<^verbatim>\<open>appendInt\<close> of package time: the decimal digits, padded with zeros to \<open>width\<close>.\<close>

definition appendInt :: "int \<Rightarrow> nat \<Rightarrow> string" where
  "appendInt x width =
     (let ds = decDigits (nat \<bar>x\<bar>)
      in (if x < 0 then ''-'' else []) @ replicate (width - length ds) CHR ''0'' @ ds)"

text \<open>
  \<^verbatim>\<open>t.Format(time.RFC3339)\<close>, layout \<^verbatim>\<open>2006-01-02T15:04:05Z07:00\<close>.  The zone is \<open>Z\<close> for
  the offset 0; otherwise the offset in minutes (Go's division truncates) is written
  with its sign as hours and minutes.
\<close>

definition Format_RFC3339 :: "Time \<Rightarrow> string" where
  "Format_RFC3339 t =
     appendInt (tYear t) 4 @ ''-'' @ appendInt (tMonth t) 2 @ ''-'' @ appendInt (tDay t) 2 @
     ''T'' @ appendInt (tHour t) 2 @ '':'' @ appendInt (tMinute t) 2 @ '':'' @
     appendInt (tSecond t) 2 @
     (if tOffset t = 0 then ''Z''
      else let zone = (if tOffset t < 0 then - ((- tOffset t) div 60) else tOffset t div 60)
           in (if zone < 0 then ''-'' else ''+'') @ appendInt (\<bar>zone\<bar> div 60) 2 @ '':'' @
              appendInt (\<bar>zone\<bar> mod 60) 2)"

definition RFC1123 :: string where "RFC1123 = ''Mon, 02 Jan 2006 15:04:05 MST''"
definition RFC1123Z :: string where "RFC1123Z = ''Mon, 02 Jan 2006 15:04:05 -0700''"
definition RFC822 :: string where "RFC822 = ''02 Jan 06 15:04 MST''"
definition RFC822Z :: string where "RFC822Z = ''02 Jan 06 15:04 -0700''"
definition RFC3339 :: string where "RFC3339 = ''2006-01-02T15:04:05Z07:00''"
definition RFC3339Nano :: string where "RFC3339Nano = ''2006-01-02T15:04:05.999999999Z07:00''"

section \<open>The environment of the parser\<close>

text \<open>
  What the parser takes from outside the repository is a parameter of the model:
  \<open>Now n\<close> is the reading of the \<open>n\<close>-th call of \<^verbatim>\<open>time.Now()\<close>, \<open>time_Parse layout value\<close>
  is \<^verbatim>\<open>time.Parse\<close> (\<open>None\<close> for a non-nil error), and the two \<open>Unmarshal\<close> functions are
  \<^verbatim>\<open>xml.Unmarshal\<close> into an \<^verbatim>\<open>RSS\<close> and into an \<^verbatim>\<open>RDF\<close> value (\<open>Inl\<close> the error text).
\<close>

record env =
  Now :: "nat \<Rightarrow> Time"
  time_Parse :: "string \<Rightarrow> string \<Rightarrow> Time option"
  Unmarshal_RSS :: "string \<Rightarrow> string + RSS"
  Unmarshal_RDF :: "string \<Rightarrow> string + RDF"

text \<open>
  The state threaded through the parser: how many times the clock was read, and the
  log lines written so far (level and message; the attributes are left out).
\<close>

datatype level = LevelDebug | LevelInfo | LevelWarn | LevelError

record pstate =
  ticks :: nat
  logs :: "(level \<times> string) list"

definition timeNow :: "env \<Rightarrow> pstate \<Rightarrow> Time \<times> pstate" where
  "timeNow E st = (Now E (ticks st), st\<lparr>ticks := Suc (ticks st)\<rparr>)"

definition logMsg :: "level \<Rightarrow> string \<Rightarrow> pstate \<Rightarrow> pstate" where
  "logMsg l m st = st\<lparr>logs := logs st @ [(l, m)]\<rparr>"

section \<open>The feed parser\<close>

definition isRDFFormat :: "string \<Rightarrow> bool" where
  "isRDFFormat xmlContent \<longleftrightarrow>
     Contains xmlContent ''<rdf:RDF'' \<or> Contains xmlContent ''xmlns:rdf''"

text \<open>
  \<^verbatim>\<open>regexp.MustCompile(`<[^>]*>`).ReplaceAllString(text, "")\<close>: the leftmost match starts
  at the first \<open><\<close> that has a \<open>>\<close> somewhere after it and ends at the first \<open>>\<close> after
  it; the search goes on behind the match.  The bytes \<open><\<close> and \<open>>\<close> are no part of a
  longer UTF-8 sequence, so the model works on bytes.
\<close>

function stripHTMLTags :: "string \<Rightarrow> string" where
  "stripHTMLTags [] = []"
| "stripHTMLTags (c # cs) =
     (if c = CHR ''<'' \<and> CHR ''>'' \<in> set cs
        then stripHTMLTags (tl (dropWhile (\<lambda>x. x \<noteq> CHR ''>'') cs))
      else c # stripHTMLTags cs)"
  by pat_completeness auto
termination
proof (relation "measure length")
  show "wf (measure length)" by simp
next
  fix c :: char and cs :: string
  have "length (tl (dropWhile (\<lambda>x. x \<noteq> CHR ''>'') cs)) \<le> length cs"
    using length_dropWhile_le [of "\<lambda>x. x \<noteq> CHR ''>''" cs] by simp
  then show "(tl (dropWhile (\<lambda>x. x \<noteq> CHR ''>'') cs), c # cs) \<in> measure length"
    by simp
next
  fix c :: char and cs :: string
  show "(cs, c # cs) \<in> measure length" by simp
qed

definition extractComment :: "string \<Rightarrow> string" where
  "extractComment description =
     (let comment = stripHTMLTags description;
          comment = TrimSpace comment
      in if length comment > 500 then [] else comment)"

fun extractTags_loop :: "string list \<Rightarrow> string list \<Rightarrow> string list" where
  "extractTags_loop [] tags = tags"
| "extractTags_loop (subject # subjects) tags =
     (let tag = TrimSpace subject
      in if tag \<noteq> [] then extractTags_loop subjects (tags @ [tag])
         else extractTags_loop subjects tags)"

definition extractTags :: "string list \<Rightarrow> string list" where
  "extractTags subjects = extractTags_loop subjects []"

definition parseDate_formats :: "string list" where
  "parseDate_formats = [RFC1123, RFC1123Z, RFC822, RFC822Z, RFC3339, ''2006-01-02 15:04:05'']"

definition parseRDFDate_formats :: "string list" where
  "parseRDFDate_formats =
     [RFC3339, RFC3339Nano, ''2006-01-02T15:04:05Z'', ''2006-01-02T15:04:05'',
      ''2006-01-02 15:04:05'']"

text \<open>The loop over the layouts: the first layout that parses the text wins.\<close>

fun tryFormats :: "env \<Rightarrow> string list \<Rightarrow> string \<Rightarrow> Time option" where
  "tryFormats E [] dateString = None"
| "tryFormats E (format # formats) dateString =
     (case time_Parse E format dateString of
        Some t \<Rightarrow> Some t
      | None \<Rightarrow> tryFormats E formats dateString)"

text \<open>The result pairs the timestamp with the error (\<open>None\<close> for nil).\<close>

definition parseDate :: "env \<Rightarrow> string \<Rightarrow> pstate \<Rightarrow> (string \<times> go_error option) \<times> pstate" where
  "parseDate E dateString st =
     (if dateString = [] then
        (let (t, st1) = timeNow E st in ((Format_RFC3339 t, None), st1))
      else case tryFormats E parseDate_formats dateString of
        Some t \<Rightarrow> ((Format_RFC3339 t, None), st)
      | None \<Rightarrow>
          (let st1 = logMsg LevelWarn ''Could not parse date, using current time'' st;
               (t, st2) = timeNow E st1
           in ((Format_RFC3339 t, Some (Errorf (''could not parse date: '' @ dateString))), st2)))"

definition parseRDFDate :: "env \<Rightarrow> string \<Rightarrow> pstate \<Rightarrow> (string \<times> go_error option) \<times> pstate" where
  "parseRDFDate E dateString st =
     (if dateString = [] then
        (let (t, st1) = timeNow E st in ((Format_RFC3339 t, None), st1))
      else case tryFormats E parseRDFDate_formats dateString of
        Some t \<Rightarrow> ((Format_RFC3339 t, None), st)
      | None \<Rightarrow> parseDate E dateString st)"

definition convertItemToBookmark ::
    "env \<Rightarrow> Item \<Rightarrow> pstate \<Rightarrow> (go_error + BookmarkItem) \<times> pstate" where
  "convertItemToBookmark E item st =
     (let ((bookmarkedAt, err), st1) = parseDate E (PubDate item) st;
          (bookmarkedAt, st2) =
            (case err of
               None \<Rightarrow> (bookmarkedAt, st1)
             | Some e \<Rightarrow>
                 (let (t, st') = timeNow E (logMsg LevelWarn ''Failed to parse date'' st1)
                  in (Format_RFC3339 t, st')));
          tags = extractTags (Subjects item);
          comment = extractComment (iDescription item)
      in (Inr \<lparr>bTitle = TrimSpace (iTitle item), bURL = TrimSpace (iLink item),
               BookmarkedAt = bookmarkedAt, Tags = tags, Comment = comment\<rparr>, st2))"

text \<open>
  In \<^verbatim>\<open>convertRDFItemToBookmark\<close> the slice \<^verbatim>\<open>tags\<close> stays nil when the subject is empty;
  the model does not tell a nil slice from an empty one.
\<close>

definition convertRDFItemToBookmark ::
    "env \<Rightarrow> RDFItem \<Rightarrow> pstate \<Rightarrow> (go_error + BookmarkItem) \<times> pstate" where
  "convertRDFItemToBookmark E item st =
     (let ((bookmarkedAt, err), st1) = parseRDFDate E (rDate item) st;
          (bookmarkedAt, st2) =
            (case err of
               None \<Rightarrow> (bookmarkedAt, st1)
             | Some e \<Rightarrow>
                 (let (t, st') = timeNow E (logMsg LevelWarn ''Failed to parse RDF date'' st1)
                  in (Format_RFC3339 t, st')));
          tags = (if Subject item \<noteq> [] then [TrimSpace (Subject item)] else []);
          comment = extractComment (rDescription item);
          comment = (if comment = [] \<and> ContentEncoded item \<noteq> []
                     then extractComment (ContentEncoded item) else comment)
      in (Inr \<lparr>bTitle = TrimSpace (rTitle item), bURL = TrimSpace (rLink item),
               BookmarkedAt = bookmarkedAt, Tags = tags, Comment = comment\<rparr>, st2))"

text \<open>
  The two extraction loops: an item whose conversion returns an error is logged and
  skipped, any other is appended to \<^verbatim>\<open>bookmarks\<close>.
\<close>

fun extractBookmarkItems_loop ::
    "env \<Rightarrow> Item list \<Rightarrow> BookmarkItem list \<Rightarrow> pstate \<Rightarrow> BookmarkItem list \<times> pstate" where
  "extractBookmarkItems_loop E [] bookmarks st = (bookmarks, st)"
| "extractBookmarkItems_loop E (item # items) bookmarks st =
     (case convertItemToBookmark E item st of
        (Inl err, st1) \<Rightarrow>
          extractBookmarkItems_loop E items bookmarks
            (logMsg LevelWarn ''Failed to convert RSS item to bookmark'' st1)
      | (Inr bookmark, st1) \<Rightarrow>
          extractBookmarkItems_loop E items (bookmarks @ [bookmark]) st1)"

definition extractBookmarkItems ::
    "env \<Rightarrow> Channel \<Rightarrow> pstate \<Rightarrow> (go_error + BookmarkItem list) \<times> pstate" where
  "extractBookmarkItems E channel st =
     (let (bookmarks, st1) = extractBookmarkItems_loop E (cItems channel) [] st
      in (Inr bookmarks, st1))"

fun extractRDFBookmarkItems_loop ::
    "env \<Rightarrow> RDFItem list \<Rightarrow> BookmarkItem list \<Rightarrow> pstate \<Rightarrow> BookmarkItem list \<times> pstate" where
  "extractRDFBookmarkItems_loop E [] bookmarks st = (bookmarks, st)"
| "extractRDFBookmarkItems_loop E (item # items) bookmarks st =
     (case convertRDFItemToBookmark E item st of
        (Inl err, st1) \<Rightarrow>
          extractRDFBookmarkItems_loop E items bookmarks
            (logMsg LevelWarn ''Failed to convert RDF item to bookmark'' st1)
      | (Inr bookmark, st1) \<Rightarrow>
          extractRDFBookmarkItems_loop E items (bookmarks @ [bookmark]) st1)"

definition extractRDFBookmarkItems ::
    "env \<Rightarrow> RDFItem list \<Rightarrow> pstate \<Rightarrow> (go_error + BookmarkItem list) \<times> pstate" where
  "extractRDFBookmarkItems E items st =
     (let (bookmarks, st1) = extractRDFBookmarkItems_loop E items [] st
      in (Inr bookmarks, st1))"

definition parseRSS2Feed ::
    "env \<Rightarrow> string \<Rightarrow> pstate \<Rightarrow> (go_error + ParsedRSSData) \<times> pstate" where
  "parseRSS2Feed E xmlContent st =
     (case Unmarshal_RSS E xmlContent of
        Inl err \<Rightarrow>
          (Inl (MCP \<lparr>Code = ErrorCodeParsing, Message = ''Failed to parse RSS XML: '' @ err,
                     Details = [(''xml_length'', DInt (int (length xmlContent)))]\<rparr>),
           logMsg LevelError ''Failed to unmarshal RSS XML'' st)
      | Inr rss \<Rightarrow>
          (case extractBookmarkItems E (RSS_Channel rss) st of
             (Inl err, st1) \<Rightarrow>
               (Inl err, logMsg LevelError ''Failed to extract bookmark items'' st1)
           | (Inr bookmarks, st1) \<Rightarrow>
               (Inr \<lparr>pTitle = cTitle (RSS_Channel rss), pItems = bookmarks,
                     ItemCount = int (length bookmarks)\<rparr>,
                logMsg LevelInfo ''Successfully parsed RSS 2.0 feed'' st1)))"

definition parseRDFFeed ::
    "env \<Rightarrow> string \<Rightarrow> pstate \<Rightarrow> (go_error + ParsedRSSData) \<times> pstate" where
  "parseRDFFeed E xmlContent st =
     (case Unmarshal_RDF E xmlContent of
        Inl err \<Rightarrow>
          (Inl (MCP \<lparr>Code = ErrorCodeParsing, Message = ''Failed to parse RDF XML: '' @ err,
                     Details = [(''xml_length'', DInt (int (length xmlContent)))]\<rparr>),
           logMsg LevelError ''Failed to unmarshal RDF XML'' st)
      | Inr rdf \<Rightarrow>
          (case extractRDFBookmarkItems E (RDF_Items rdf) st of
             (Inl err, st1) \<Rightarrow>
               (Inl err, logMsg LevelError ''Failed to extract RDF bookmark items'' st1)
           | (Inr bookmarks, st1) \<Rightarrow>
               (Inr \<lparr>pTitle = rcTitle (RDF_Channel rdf), pItems = bookmarks,
                     ItemCount = int (length bookmarks)\<rparr>,
                logMsg LevelInfo ''Successfully parsed RDF/RSS 1.0 feed'' st1)))"

definition ParseRSSFeed ::
    "env \<Rightarrow> string \<Rightarrow> pstate \<Rightarrow> (go_error + ParsedRSSData) \<times> pstate" where
  "ParseRSSFeed E xmlContent st =
     (let st1 = logMsg LevelDebug ''Starting RSS feed parsing'' st
      in if isRDFFormat xmlContent then parseRDFFeed E xmlContent st1
         else parseRSS2Feed E xmlContent st1)"

section \<open>Notions used to state the properties\<close>

text \<open>
  The results of converting the items of a document one after the other, in document
  order, each in the state the loop has reached when it comes to the item (a failed
  conversion is followed by the loop's warning); \<open>successes\<close> keeps the bookmarks of
  the conversions that returned no error, in the same order.
\<close>

fun conversions ::
    "('i \<Rightarrow> pstate \<Rightarrow> (go_error + BookmarkItem) \<times> pstate) \<Rightarrow> string \<Rightarrow> 'i list \<Rightarrow> pstate
     \<Rightarrow> (go_error + BookmarkItem) list" where
  "conversions conv msg [] st = []"
| "conversions conv msg (item # items) st =
     (case conv item st of
        (Inl err, st1) \<Rightarrow> Inl err # conversions conv msg items (logMsg LevelWarn msg st1)
      | (Inr b, st1) \<Rightarrow> Inr b # conversions conv msg items st1)"

definition successes :: "('e + 'b) list \<Rightarrow> 'b list" where
  "successes rs = concat (map (\<lambda>r. case r of Inl e \<Rightarrow> [] | Inr b \<Rightarrow> [b]) rs)"

text \<open>
  The title, link and date fields of the items of a document, in document order, as
  the parser chosen by the format detection reads them (\<open>None\<close> when the document cannot
  be unmarshalled), and the layouts that parser tries on a date.
\<close>

definition feedEntries :: "env \<Rightarrow> string \<Rightarrow> (string \<times> string \<times> string) list option" where
  "feedEntries E xml =
     (if isRDFFormat xml then
        (case Unmarshal_RDF E xml of
           Inl err \<Rightarrow> None
         | Inr rdf \<Rightarrow> Some (map (\<lambda>item. (rTitle item, rLink item, rDate item)) (RDF_Items rdf)))
      else
        (case Unmarshal_RSS E xml of
           Inl err \<Rightarrow> None
         | Inr rss \<Rightarrow>
             Some (map (\<lambda>item. (iTitle item, iLink item, PubDate item))
                     (cItems (RSS_Channel rss)))))"

definition knownLayouts :: "string \<Rightarrow> string list" where
  "knownLayouts xml =
     (if isRDFFormat xml then parseRDFDate_formats @ parseDate_formats else parseDate_formats)"

text \<open>
  A time whose fields are in the ranges of the calendar, as every \<^verbatim>\<open>time.Time\<close> of the
  years 0 to 9999 is.
\<close>

definition validTime :: "Time \<Rightarrow> bool" where
  "validTime t \<longleftrightarrow>
     0 \<le> tYear t \<and> tYear t \<le> 9999 \<and> 1 \<le> tMonth t \<and> tMonth t \<le> 12 \<and>
     1 \<le> tDay t \<and> tDay t \<le> daysIn (tMonth t) (tYear t) \<and>
     0 \<le> tHour t \<and> tHour t \<le> 23 \<and> 0 \<le> tMinute t \<and> tMinute t \<le> 59 \<and>
     0 \<le> tSecond t \<and> tSecond t \<le> 59 \<and> - 86400 < tOffset t \<and> tOffset t < 86400"

text \<open>
  The \<open>date-time\<close> of RFC 3339 without a fraction of a second: \<open>YYYY-MM-DDThh:mm:ss\<close>
  followed by \<open>Z\<close> or by an offset \<open>+hh:mm\<close> or \<open>-hh:mm\<close>, the numbers in their ranges.
\<close>

definition twoDigits :: "string \<Rightarrow> int \<Rightarrow> int \<Rightarrow> bool" where
  "twoDigits s lo hi \<longleftrightarrow>
     length s = 2 \<and> list_all isDigit s \<and> lo \<le> digitsValue s \<and> digitsValue s \<le> hi"

definition isRFC3339 :: "string \<Rightarrow> bool" where
  "isRFC3339 s \<longleftrightarrow>
     length (take 4 s) = 4 \<and> list_all isDigit (take 4 s) \<and>
     take 1 (drop 4 s) = ''-'' \<and> twoDigits (take 2 (drop 5 s)) 1 12 \<and>
     take 1 (drop 7 s) = ''-'' \<and> twoDigits (take 2 (drop 8 s)) 1 31 \<and>
     take 1 (drop 10 s) = ''T'' \<and> twoDigits (take 2 (drop 11 s)) 0 23 \<and>
     take 1 (drop 13 s) = '':'' \<and> twoDigits (take 2 (drop 14 s)) 0 59 \<and>
     take 1 (drop 16 s) = '':'' \<and> twoDigits (take 2 (drop 17 s)) 0 60 \<and>
     (drop 19 s = ''Z'' \<or>
      (length (drop 19 s) = 6 \<and>
       (take 1 (drop 19 s) = ''+'' \<or> take 1 (drop 19 s) = ''-'') \<and>
       twoDigits (take 2 (drop 20 s)) 0 23 \<and>
       take 1 (drop 22 s) = '':'' \<and> twoDigits (drop 23 s) 0 59))"

text \<open>
  A text holds a markup tag when a \<open><\<close> is followed, anywhere later, by a \<open>>\<close>.
\<close>

definition hasTag :: "string \<Rightarrow> bool" where
  "hasTag s \<longleftrightarrow> (\<exists>pre mid post. s = pre @ ''<'' @ mid @ ''>'' @ post)"

text \<open>
  The number of characters of a UTF-8 text: the bytes that do not continue a
  character, that is, all but those from 0x80 to 0xBF.
\<close>

definition utf8Chars :: "string \<Rightarrow> nat" where
  "utf8Chars s = length (filter (\<lambda>c. \<not> (128 \<le> (of_char c :: nat) \<and> (of_char c :: nat) \<le> 191)) s)"

section \<open>A concrete environment and two documents\<close>

text \<open>
  An environment in which the clock stands still, \<^verbatim>\<open>time.Parse\<close> reads one timestamp
  only, and \<^verbatim>\<open>xml.Unmarshal\<close> knows one document of each dialect.  The properties below
  are instantiated with it.
\<close>

definition exampleTime :: Time where
  "exampleTime =
     \<lparr>tYear = 2026, tMonth = 11, tDay = 1, tHour = 6, tMinute = 43, tSecond = 5,
      tOffset = 32400\<rparr>"

definition exampleRSS :: RSS where
  "exampleRSS =
     \<lparr>Version = ''2.0'',
      RSS_Channel =
        \<lparr>cTitle = ''bookmarks'', cLink = ''https://b.hatena.ne.jp/sample/'', cDescription = [],
         cItems =
           [\<lparr>iTitle = ''Go'', iLink = ''https://go.dev/'', iDescription = ''<b>hello</b> world'',
             PubDate = ''2026-11-01T06:43:05+09:00'', Subjects = [''go'', ''mcp'', ''tools'']\<rparr>,
            \<lparr>iTitle = '' Isabelle '', iLink = ''https://isabelle.in.tum.de/'', iDescription = [],
             PubDate = ''yesterday'', Subjects = []\<rparr>]\<rparr>\<rparr>"

definition exampleRDF :: RDF where
  "exampleRDF =
     \<lparr>RDF_Channel =
        \<lparr>rcAbout = [], rcTitle = ''bookmarks'', rcLink = [], rcDescription = [],
         rcResources = []\<rparr>,
      RDF_Items =
        [\<lparr>rAbout = [], rTitle = ''Go'', rLink = ''https://go.dev/'', rDescription = [],
          Creator = ''sample'', rDate = ''last week'', Subject = ''programming'',
          BookmarkCount = 3, ContentEncoded = []\<rparr>]\<rparr>"

definition exampleEnv :: env where
  "exampleEnv =
     \<lparr>Now = (\<lambda>n. exampleTime),
      time_Parse = (\<lambda>layout v. if v = ''2026-11-01T06:43:05+09:00'' then Some exampleTime
                               else None),
      Unmarshal_RSS = (\<lambda>x. if x = ''<rss/>'' then Inr exampleRSS else Inl ''EOF''),
      Unmarshal_RDF = (\<lambda>x. if x = ''<rdf:RDF/>'' then Inr exampleRDF else Inl ''EOF'')\<rparr>"

definition exampleState :: pstate where
  "exampleState = \<lparr>ticks = 0, logs = []\<rparr>"

text \<open>The letter HIRAGANA A (U+3042, three bytes in UTF-8) two hundred times.\<close>

definition exampleJapanese :: string where
  "exampleJapanese = concat (replicate 200 [CHR 0xE3, CHR 0x81, CHR 0x82])"

section \<open>Properties of the cache\<close>

text \<open>
  C1.  The cache key is not injective.  Two requests that both pass every validator,
  one with the tag \<open>go_date:20240101\<close> and no date, the other with the tag \<open>go\<close> and
  the date \<open>20240101\<close>, differ in two fields and get the same key: the fields are
  joined without escaping the separators.
\<close>

theorem GenerateCacheKey_collision:
  "GenerateCacheKey
     \<lparr>Username = ''sample'', Tag = ''go_date:20240101'', Date = [], URL = [], Page = 1\<rparr>
   = GenerateCacheKey
     \<lparr>Username = ''sample'', Tag = ''go'', Date = ''20240101'', URL = [], Page = 1\<rparr>
   \<and> \<lparr>Username = ''sample'', Tag = ''go_date:20240101'', Date = [], URL = [], Page = 1\<rparr>
     \<noteq> \<lparr>Username = ''sample'', Tag = ''go'', Date = ''20240101'', URL = [], Page = 1\<rparr>"
  by (simp add: GenerateCacheKey_def)

text \<open>
  The page number is written as the UTF-8 encoding of the code point with that number,
  not as decimal digits: page 49 gives the character \<open>1\<close>.  Every page number that is
  no valid code point gives U+FFFD, so the pages 55296 and 55297 (surrogates) collide,
  and so do all pages that agree in their low 32 bits.
\<close>

lemma GenerateCacheKey_page_49:
  "GenerateCacheKey \<lparr>Username = ''sample'', Tag = [], Date = [], URL = [], Page = 49\<rparr>
   = ''sample_page:1''"
  by code_simp

lemma GenerateCacheKey_page_collision:
  "GenerateCacheKey \<lparr>Username = ''sample'', Tag = [], Date = [], URL = [], Page = 55296\<rparr>
   = GenerateCacheKey \<lparr>Username = ''sample'', Tag = [], Date = [], URL = [], Page = 55297\<rparr>"
  by (simp add: GenerateCacheKey_def rune_def runeString_def)

lemma GenerateCacheKey_page_wraps:
  "GenerateCacheKey \<lparr>Username = ''sample'', Tag = [], Date = [], URL = [], Page = 4294967297\<rparr>
   = GenerateCacheKey \<lparr>Username = ''sample'', Tag = [], Date = [], URL = [], Page = 1\<rparr>"
  by (simp add: GenerateCacheKey_def rune_def runeString_def)

lemma GenerateCacheKey_page_nonpositive:
  "p \<le> 0 \<Longrightarrow>
   GenerateCacheKey \<lparr>Username = u, Tag = t, Date = d, URL = l, Page = p\<rparr>
   = GenerateCacheKey \<lparr>Username = u, Tag = t, Date = d, URL = l, Page = 0\<rparr>"
  by (simp add: GenerateCacheKey_def Let_def)

text \<open>
  C7.  \<open>Set\<close> at the instant \<open>now\<close> followed by \<open>Get\<close> of the same key at the instant
  \<open>now'\<close> returns the stored value as long as \<open>now'\<close> is not after \<open>now + ttl\<close>, and
  returns absent once it is; the entry is still in the map then, no sweep is needed.
  With a TTL that is not negative, a \<open>Get\<close> at the instant of the \<open>Set\<close> returns the
  value.
\<close>

theorem Get_after_Set:
  "Get (Set c now k v) now' k = (if now + ttl c < now' then None else Some v)
   \<and> entries (Set c now k v) k \<noteq> None"
  by (simp add: Get_def Set_def)

lemma Get_Set_immediately: "0 \<le> ttl c \<Longrightarrow> Get (Set c now k v) now k = Some v"
  by (simp add: Get_def Set_def)

lemma Get_Set_other: "k' \<noteq> k \<Longrightarrow> Get (Set c now k v) now' k' = Get c now' k'"
  by (simp add: Get_def Set_def)

lemma Get_expired:
  "entries c k = Some e \<Longrightarrow> ExpiresAt e < now \<Longrightarrow> Get c now k = None"
  by (simp add: Get_def)

text \<open>A sweep that ran at any earlier instant makes no difference to a lookup.\<close>

lemma Get_cleanup: "t \<le> now \<Longrightarrow> Get (cleanup c t) now k = Get c now k"
  by (auto simp: Get_def cleanup_def split: option.splits)

section \<open>Properties of the validation\<close>

text \<open>
  C3.  A request with the date \<open>20240230\<close> passes the validation that
  \<^verbatim>\<open>GetBookmarks\<close> performs: \<^verbatim>\<open>isValidDateFormat\<close> tests the length and the digits only.
\<close>

theorem validateParams_accepts_Feb_30:
  "validateParams urlParse
     \<lparr>Username = ''sample'', Tag = [], Date = ''20240230'', URL = [], Page = 0\<rparr> = None"
  by code_simp

text \<open>
  The validator of package utils, which \<^verbatim>\<open>GetBookmarks\<close> does not call, rejects the
  same date, and accepts 29 February in a leap year only.
\<close>

lemma ValidateDate_rejects_Feb_30:
  "ValidateDate 2026 ''20240230'' =
     Some \<lparr>Code = ErrorCodeValidation, Message = ''Invalid date'',
           Details = [(''date'', DString ''20240230''),
                      (''error'', DString (''parsing time '' @ [CHR 0x22] @ ''20240230'' @
                                           [CHR 0x22] @ '': day out of range''))]\<rparr>"
  by code_simp

lemma ValidateDate_Feb_29:
  "ValidateDate 2026 ''20240229'' = None \<and> ValidateDate 2026 ''20230229'' \<noteq> None"
  by code_simp

text \<open>
  C4.  A request whose username is 51 letters passes the validation that
  \<^verbatim>\<open>GetBookmarks\<close> performs: \<^verbatim>\<open>validateParams\<close> has no test of the length.
\<close>

theorem validateParams_accepts_long_username:
  "validateParams urlParse
     \<lparr>Username = replicate 51 CHR ''a'', Tag = [], Date = [], URL = [], Page = 0\<rparr> = None"
  by code_simp

text \<open>The validator of package utils rejects the same username.\<close>

lemma ValidateUsername_rejects_long_username:
  "ValidateUsername (replicate 51 CHR ''a'') =
     Some \<lparr>Code = ErrorCodeValidation, Message = ''Username must be 50 characters or less'',
           Details = [(''username'', DString (replicate 51 CHR ''a'')),
                      (''length'', DInt 51)]\<rparr>"
  by code_simp


section \<open>Properties of the parser\<close>

subsection \<open>Format detection\<close>

lemma Contains_iff_sublist: "Contains s sub \<longleftrightarrow> sublist sub s"
  by (induction s) (auto simp: sublist_Cons_right)

lemma isRDFFormat_iff:
  "isRDFFormat xml \<longleftrightarrow> sublist ''<rdf:RDF'' xml \<or> sublist ''xmlns:rdf'' xml"
  by (simp add: isRDFFormat_def Contains_iff_sublist)

lemma timeNow_Unmarshal [simp]:
  "timeNow (E\<lparr>Unmarshal_RSS := u\<rparr>) st = timeNow E st"
  "timeNow (E\<lparr>Unmarshal_RDF := v\<rparr>) st = timeNow E st"
  by (simp_all add: timeNow_def)

lemma tryFormats_Unmarshal [simp]:
  "tryFormats (E\<lparr>Unmarshal_RSS := u\<rparr>) fs d = tryFormats E fs d"
  "tryFormats (E\<lparr>Unmarshal_RDF := v\<rparr>) fs d = tryFormats E fs d"
  by (induction fs) (simp_all split: option.splits)

lemma parseDate_Unmarshal [simp]:
  "parseDate (E\<lparr>Unmarshal_RSS := u\<rparr>) d st = parseDate E d st"
  "parseDate (E\<lparr>Unmarshal_RDF := v\<rparr>) d st = parseDate E d st"
  by (simp_all add: parseDate_def Let_def split: option.splits)

lemma parseRDFDate_Unmarshal [simp]:
  "parseRDFDate (E\<lparr>Unmarshal_RSS := u\<rparr>) d st = parseRDFDate E d st"
  by (simp_all add: parseRDFDate_def Let_def split: option.splits)

lemma convertItemToBookmark_Unmarshal [simp]:
  "convertItemToBookmark (E\<lparr>Unmarshal_RDF := v\<rparr>) item st = convertItemToBookmark E item st"
  by (simp add: convertItemToBookmark_def Let_def split: prod.splits option.splits)

lemma convertRDFItemToBookmark_Unmarshal [simp]:
  "convertRDFItemToBookmark (E\<lparr>Unmarshal_RSS := u\<rparr>) item st = convertRDFItemToBookmark E item st"
  by (simp add: convertRDFItemToBookmark_def Let_def split: prod.splits option.splits)

lemma extractBookmarkItems_loop_Unmarshal [simp]:
  "extractBookmarkItems_loop (E\<lparr>Unmarshal_RDF := v\<rparr>) items acc st
   = extractBookmarkItems_loop E items acc st"
  by (induction items arbitrary: acc st) (simp_all split: prod.splits sum.splits)

lemma extractRDFBookmarkItems_loop_Unmarshal [simp]:
  "extractRDFBookmarkItems_loop (E\<lparr>Unmarshal_RSS := u\<rparr>) items acc st
   = extractRDFBookmarkItems_loop E items acc st"
  by (induction items arbitrary: acc st) (simp_all split: prod.splits sum.splits)

lemma extractRDFBookmarkItems_Unmarshal [simp]:
  "extractRDFBookmarkItems (E\<lparr>Unmarshal_RSS := u\<rparr>) items st
   = extractRDFBookmarkItems E items st"
  by (simp add: extractRDFBookmarkItems_def)

lemma extractBookmarkItems_Unmarshal [simp]:
  "extractBookmarkItems (E\<lparr>Unmarshal_RDF := v\<rparr>) channel st
   = extractBookmarkItems E channel st"
  by (simp add: extractBookmarkItems_def)

lemma parseRDFFeed_Unmarshal_RSS:
  "parseRDFFeed (E\<lparr>Unmarshal_RSS := u\<rparr>) xml st = parseRDFFeed E xml st"
  by (simp add: parseRDFFeed_def split: sum.splits)

lemma parseRSS2Feed_Unmarshal_RDF:
  "parseRSS2Feed (E\<lparr>Unmarshal_RDF := v\<rparr>) xml st = parseRSS2Feed E xml st"
  by (simp add: parseRSS2Feed_def split: sum.splits)

text \<open>
  C6.  \<^verbatim>\<open>ParseRSSFeed\<close> writes one debug line and then chooses the parser by the marker
  test alone: a document in which \<open><rdf:RDF\<close> or \<open>xmlns:rdf\<close> occurs (the root tag or
  the namespace declaration of the RDF dialect) is handed to \<^verbatim>\<open>parseRDFFeed\<close>, every
  other document to \<^verbatim>\<open>parseRSS2Feed\<close>.  What \<^verbatim>\<open>xml.Unmarshal\<close> would make of the
  document as the other dialect has no influence on the result.
\<close>

theorem ParseRSSFeed_routing:
  "ParseRSSFeed E xml st =
     (if sublist ''<rdf:RDF'' xml \<or> sublist ''xmlns:rdf'' xml
        then parseRDFFeed E xml (logMsg LevelDebug ''Starting RSS feed parsing'' st)
      else parseRSS2Feed E xml (logMsg LevelDebug ''Starting RSS feed parsing'' st))
   \<and> parseRDFFeed (E\<lparr>Unmarshal_RSS := u\<rparr>) xml st1 = parseRDFFeed E xml st1
   \<and> parseRSS2Feed (E\<lparr>Unmarshal_RDF := v\<rparr>) xml st1 = parseRSS2Feed E xml st1"
  by (simp add: ParseRSSFeed_def Let_def isRDFFormat_iff parseRDFFeed_Unmarshal_RSS
      parseRSS2Feed_Unmarshal_RDF)

subsection \<open>Conversion of single items\<close>

lemma convertItemToBookmark_Inr:
  "\<exists>b st'. convertItemToBookmark E item st = (Inr b, st')"
  by (simp add: convertItemToBookmark_def split: prod.splits option.splits)

lemma convertRDFItemToBookmark_Inr:
  "\<exists>b st'. convertRDFItemToBookmark E item st = (Inr b, st')"
  by (simp add: convertRDFItemToBookmark_def Let_def split: prod.splits option.splits)

text \<open>
  C9.  For the empty date string \<^verbatim>\<open>parseDate\<close> and \<^verbatim>\<open>parseRDFDate\<close> return the current
  time in RFC3339 form and a nil error.  The state after the call differs from the
  state before only in the clock having been read once: no line is logged.  The
  conversion of an item with an empty date returns the bookmark with that timestamp,
  and the extraction loops append it.
\<close>

theorem empty_date_is_success:
  "parseDate E [] st =
     ((Format_RFC3339 (Now E (ticks st)), None), st\<lparr>ticks := Suc (ticks st)\<rparr>)
   \<and> parseRDFDate E [] st =
     ((Format_RFC3339 (Now E (ticks st)), None), st\<lparr>ticks := Suc (ticks st)\<rparr>)
   \<and> convertItemToBookmark E (item\<lparr>PubDate := []\<rparr>) st =
       (Inr \<lparr>bTitle = TrimSpace (iTitle item), bURL = TrimSpace (iLink item),
             BookmarkedAt = Format_RFC3339 (Now E (ticks st)),
             Tags = extractTags (Subjects item),
             Comment = extractComment (iDescription item)\<rparr>,
        st\<lparr>ticks := Suc (ticks st)\<rparr>)
   \<and> convertRDFItemToBookmark E (ritem\<lparr>rDate := []\<rparr>) st =
       (Inr \<lparr>bTitle = TrimSpace (rTitle ritem), bURL = TrimSpace (rLink ritem),
             BookmarkedAt = Format_RFC3339 (Now E (ticks st)),
             Tags = (if Subject ritem \<noteq> [] then [TrimSpace (Subject ritem)] else []),
             Comment = (if extractComment (rDescription ritem) = [] \<and> ContentEncoded ritem \<noteq> []
                        then extractComment (ContentEncoded ritem)
                        else extractComment (rDescription ritem))\<rparr>,
        st\<lparr>ticks := Suc (ticks st)\<rparr>)
   \<and> extractBookmarkItems_loop E [item\<lparr>PubDate := []\<rparr>] bookmarks st =
       (bookmarks @
        [\<lparr>bTitle = TrimSpace (iTitle item), bURL = TrimSpace (iLink item),
          BookmarkedAt = Format_RFC3339 (Now E (ticks st)),
          Tags = extractTags (Subjects item),
          Comment = extractComment (iDescription item)\<rparr>],
        st\<lparr>ticks := Suc (ticks st)\<rparr>)
   \<and> map_prod length logs (extractRDFBookmarkItems_loop E [ritem\<lparr>rDate := []\<rparr>] bookmarks st) =
       (Suc (length bookmarks), logs st)"
  by (simp add: parseDate_def parseRDFDate_def timeNow_def convertItemToBookmark_def
        convertRDFItemToBookmark_def Let_def)

text \<open>
  C2.  An RDF item whose subject is one blank gets the tag list that holds the empty
  string: the subject is tested for emptiness before it is trimmed, not after.
\<close>

lemma TrimSpace_blank: "TrimSpace '' '' = []"
  by code_simp

theorem convertRDFItemToBookmark_blank_subject:
  "map_sum id Tags (fst (convertRDFItemToBookmark E (item\<lparr>Subject := '' ''\<rparr>) st)) = Inr [[]]"
  by (simp add: convertRDFItemToBookmark_def Let_def TrimSpace_blank
      split: prod.splits option.splits)


subsection \<open>Timestamps\<close>

lemma of_char_digitChar: "d < 10 \<Longrightarrow> of_char (digitChar d) = (48 + d :: nat)"
  by (simp add: digitChar_def)

lemma isDigit_digitChar: "d < 10 \<Longrightarrow> isDigit (digitChar d)"
  by (simp add: isDigit_def of_char_digitChar)

lemma digitChar_0: "digitChar 0 = CHR ''0''"
  by code_simp

lemma decDigits_small: "n < 10 \<Longrightarrow> decDigits n = [digitChar n]"
  by (subst decDigits.simps) simp

lemma decDigits_large: "10 \<le> n \<Longrightarrow> decDigits n = decDigits (n div 10) @ [digitChar (n mod 10)]"
  by (subst decDigits.simps) simp

lemma appendInt_two:
  assumes "0 \<le> x" "x \<le> 99"
  shows "appendInt x 2 = [digitChar (nat x div 10), digitChar (nat x mod 10)]"
proof -
  define n where "n = nat x"
  have n: "n \<le> 99" and x: "nat \<bar>x\<bar> = n" using assms by (simp_all add: n_def)
  have "n < 10 \<or> 10 \<le> n" by arith
  then show ?thesis
  proof
    assume "n < 10"
    then show ?thesis using assms x
      by (simp add: appendInt_def decDigits_small digitChar_0 n_def [symmetric])
  next
    assume h: "10 \<le> n"
    then have "n div 10 < 10" using n by simp
    then show ?thesis using assms x h
      by (simp add: appendInt_def decDigits_small decDigits_large n_def [symmetric])
  qed
qed

lemma rep:
  "replicate 3 c = [c, c, c]" "replicate 2 c = [c, c]"
  by (simp_all add: numeral_3_eq_3 numeral_2_eq_2)

lemma appendInt_four:
  assumes "0 \<le> x" "x \<le> 9999"
  shows "appendInt x 4 =
     [digitChar (nat x div 1000), digitChar (nat x div 100 mod 10),
      digitChar (nat x div 10 mod 10), digitChar (nat x mod 10)]"
proof -
  define n where "n = nat x"
  have n: "n \<le> 9999" and x: "nat \<bar>x\<bar> = n" using assms by (simp_all add: n_def)
  consider "n < 10" | "10 \<le> n" "n < 100" | "100 \<le> n" "n < 1000" | "1000 \<le> n"
    by arith
  then show ?thesis
  proof cases
    case 1
    then show ?thesis using assms x
      by (simp add: appendInt_def decDigits_small digitChar_0 n_def [symmetric] rep)
  next
    case 2
    then have "n div 10 < 10" by simp
    then show ?thesis using assms x 2
      by (simp add: appendInt_def decDigits_small decDigits_large digitChar_0
          n_def [symmetric] rep)
  next
    case 3
    then have a: "10 \<le> n div 10" "n div 10 div 10 < 10" by simp_all
    have b: "n div 10 div 10 = n div 100" by (simp add: div_mult2_eq)
    from 3 have c: "10 \<le> n" by simp
    from 3 have d: "n div 1000 = 0" by simp
    show ?thesis using assms x 3 a b c d
      by (simp add: appendInt_def decDigits_small decDigits_large digitChar_0
          n_def [symmetric] rep)
  next
    case 4
    then have a: "10 \<le> n" "10 \<le> n div 10" "10 \<le> n div 10 div 10"
      "n div 10 div 10 div 10 < 10" using n by simp_all
    have b: "n div 10 div 10 = n div 100" "n div 10 div 10 div 10 = n div 1000"
      by (simp_all add: div_mult2_eq)
    have e: "n div 1000 mod 10 = n div 1000" using n by simp
    show ?thesis using assms x 4 a b e
      by (simp add: appendInt_def decDigits_small decDigits_large n_def [symmetric])
  qed
qed

lemma twoDigits_digitChar:
  assumes "a < 10" "b < 10"
  shows "twoDigits [digitChar a, digitChar b] lo hi \<longleftrightarrow> lo \<le> int (10 * a + b) \<and> int (10 * a + b) \<le> hi"
  using assms by (simp add: twoDigits_def isDigit_digitChar digitsValue_def of_char_digitChar)

lemma twoDigits_appendInt:
  assumes "0 \<le> x" "x \<le> 99"
  shows "twoDigits (appendInt x 2) lo hi \<longleftrightarrow> lo \<le> x \<and> x \<le> hi"
proof -
  have a: "nat x div 10 < 10" "nat x mod 10 < 10" using assms by simp_all
  have "int (10 * (nat x div 10) + nat x mod 10) = x" using assms by simp
  then show ?thesis using twoDigits_digitChar [OF a] by (simp add: appendInt_two [OF assms])
qed


lemma twoDigits_length: "twoDigits s lo hi \<Longrightarrow> length s = 2"
  by (simp add: twoDigits_def)

lemma isRFC3339_I:
  assumes "length Y = 4" "list_all isDigit Y"
    and "twoDigits M 1 12" "twoDigits D 1 31"
    and "twoDigits h 0 23" "twoDigits m 0 59" "twoDigits s 0 60"
    and "z = ''Z'' \<or> (\<exists>sg zh zm. z = sg # zh @ '':'' @ zm \<and> (sg = CHR ''+'' \<or> sg = CHR ''-'')
            \<and> twoDigits zh 0 23 \<and> twoDigits zm 0 59)"
  shows "isRFC3339 (Y @ ''-'' @ M @ ''-'' @ D @ ''T'' @ h @ '':'' @ m @ '':'' @ s @ z)"
proof -
  note len = assms(1) twoDigits_length [OF assms(3)] twoDigits_length [OF assms(4)]
    twoDigits_length [OF assms(5)] twoDigits_length [OF assms(6)] twoDigits_length [OF assms(7)]
  from assms(8) show ?thesis
  proof
    assume "z = ''Z''"
    then show ?thesis using assms(1-7) len by (simp add: isRFC3339_def)
  next
    assume "\<exists>sg zh zm. z = sg # zh @ '':'' @ zm \<and> (sg = CHR ''+'' \<or> sg = CHR ''-'')
            \<and> twoDigits zh 0 23 \<and> twoDigits zm 0 59"
    then obtain sg zh zm where z: "z = sg # zh @ '':'' @ zm"
      and sg: "sg = CHR ''+'' \<or> sg = CHR ''-''"
      and zh: "twoDigits zh 0 23" and zm: "twoDigits zm 0 59" by blast
    note lz = twoDigits_length [OF zh] twoDigits_length [OF zm]
    show ?thesis using assms(1-7) len z sg zh zm lz by (auto simp add: isRFC3339_def)
  qed
qed

lemma appendInt_four_digits:
  assumes "0 \<le> x" "x \<le> 9999"
  shows "length (appendInt x 4) = 4 \<and> list_all isDigit (appendInt x 4)"
proof -
  have "nat x div 1000 < 10" using assms by simp
  then show ?thesis by (simp add: appendInt_four [OF assms] isDigit_digitChar)
qed

lemma Format_RFC3339_valid:
  assumes "validTime t"
  shows "isRFC3339 (Format_RFC3339 t)"
proof -
  from assms have y: "0 \<le> tYear t" "tYear t \<le> 9999"
    and mo: "0 \<le> tMonth t" "tMonth t \<le> 99" "1 \<le> tMonth t" "tMonth t \<le> 12"
    and h: "0 \<le> tHour t" "tHour t \<le> 99" "tHour t \<le> 23"
    and mi: "0 \<le> tMinute t" "tMinute t \<le> 99" "tMinute t \<le> 59"
    and se: "0 \<le> tSecond t" "tSecond t \<le> 99" "tSecond t \<le> 60"
    and off: "- 86400 < tOffset t" "tOffset t < 86400"
    and d1: "1 \<le> tDay t" "tDay t \<le> daysIn (tMonth t) (tYear t)"
    by (simp_all add: validTime_def)
  have "daysIn (tMonth t) (tYear t) \<le> 31" by (simp add: daysIn_def)
  with d1 have d: "0 \<le> tDay t" "tDay t \<le> 99" "1 \<le> tDay t" "tDay t \<le> 31" by simp_all
  define zone where "zone = (if tOffset t < 0 then - ((- tOffset t) div 60) else tOffset t div 60)"
  have zr: "\<bar>zone\<bar> < 1440" using off by (auto simp: zone_def)
  then have zh: "0 \<le> \<bar>zone\<bar> div 60" "\<bar>zone\<bar> div 60 \<le> 99" "\<bar>zone\<bar> div 60 \<le> 23"
    and zm: "0 \<le> \<bar>zone\<bar> mod 60" "\<bar>zone\<bar> mod 60 \<le> 99" "\<bar>zone\<bar> mod 60 \<le> 59"
    by simp_all
  define z where "z = (if tOffset t = 0 then ''Z''
      else (if zone < 0 then ''-'' else ''+'') @ appendInt (\<bar>zone\<bar> div 60) 2 @ '':'' @
              appendInt (\<bar>zone\<bar> mod 60) 2)"
  have F: "Format_RFC3339 t =
     appendInt (tYear t) 4 @ ''-'' @ appendInt (tMonth t) 2 @ ''-'' @ appendInt (tDay t) 2 @
     ''T'' @ appendInt (tHour t) 2 @ '':'' @ appendInt (tMinute t) 2 @ '':'' @
     appendInt (tSecond t) 2 @ z"
    by (simp add: Format_RFC3339_def z_def zone_def Let_def)
  have Z: "z = ''Z'' \<or> (\<exists>sg zh zm. z = sg # zh @ '':'' @ zm \<and> (sg = CHR ''+'' \<or> sg = CHR ''-'')
            \<and> twoDigits zh 0 23 \<and> twoDigits zm 0 59)"
  proof -
    have tw: "twoDigits (appendInt (\<bar>zone\<bar> div 60) 2) 0 23"
      "twoDigits (appendInt (\<bar>zone\<bar> mod 60) 2) 0 59"
      using zh zm by (simp_all add: twoDigits_appendInt)
    have "tOffset t = 0 \<or> tOffset t \<noteq> 0" by simp
    then show ?thesis
    proof
      assume "tOffset t = 0"
      then show ?thesis by (simp add: z_def)
    next
      assume n: "tOffset t \<noteq> 0"
      let ?sg = "if zone < 0 then CHR ''-'' else CHR ''+''"
      have "z = ?sg # appendInt (\<bar>zone\<bar> div 60) 2 @ '':'' @ appendInt (\<bar>zone\<bar> mod 60) 2"
        using n by (simp add: z_def)
      moreover have "?sg = CHR ''+'' \<or> ?sg = CHR ''-''" by simp
      ultimately show ?thesis using tw by blast
    qed
  qed
  show ?thesis
    unfolding F
    by (rule isRFC3339_I)
       (use y mo d h mi se Z in \<open>simp_all add: appendInt_four_digits twoDigits_appendInt\<close>)
qed

lemma Format_RFC3339_nonempty: "Format_RFC3339 t \<noteq> []"
  by (simp add: Format_RFC3339_def)


subsection \<open>The extraction loops\<close>

lemma successes_simps [simp]:
  "successes [] = []"
  "successes (Inl e # rs) = successes rs"
  "successes (Inr b # rs) = b # successes rs"
  by (simp_all add: successes_def)

lemma length_conversions [simp]: "length (conversions conv msg items st) = length items"
  by (induction items arbitrary: st) (simp_all split: prod.splits sum.splits)

lemma extractBookmarkItems_loop_conversions:
  "fst (extractBookmarkItems_loop E items acc st) =
     acc @ successes (conversions (convertItemToBookmark E)
                        ''Failed to convert RSS item to bookmark'' items st)"
  by (induction items arbitrary: acc st) (simp_all split: prod.splits sum.splits)

lemma extractRDFBookmarkItems_loop_conversions:
  "fst (extractRDFBookmarkItems_loop E items acc st) =
     acc @ successes (conversions (convertRDFItemToBookmark E)
                        ''Failed to convert RDF item to bookmark'' items st)"
  by (induction items arbitrary: acc st) (simp_all split: prod.splits sum.splits)

lemma conversions_all_succeed:
  assumes "\<And>item s. \<exists>b s'. conv item s = (Inr b, s')"
  shows "length (successes (conversions conv msg items st)) = length items"
proof (induction items arbitrary: st)
  case Nil
  show ?case by simp
next
  case (Cons item items)
  from assms obtain b s' where "conv item st = (Inr b, s')" by blast
  then show ?case using Cons.IH by simp
qed

lemma fst_extractBookmarkItems:
  "fst (extractBookmarkItems E channel st) =
     Inr (successes (conversions (convertItemToBookmark E)
                       ''Failed to convert RSS item to bookmark'' (cItems channel) st))"
  by (simp add: extractBookmarkItems_def case_prod_beta extractBookmarkItems_loop_conversions)

lemma fst_extractRDFBookmarkItems:
  "fst (extractRDFBookmarkItems E items st) =
     Inr (successes (conversions (convertRDFItemToBookmark E)
                       ''Failed to convert RDF item to bookmark'' items st))"
  by (simp add: extractRDFBookmarkItems_def case_prod_beta
      extractRDFBookmarkItems_loop_conversions)

lemma fst_parseRSS2Feed:
  assumes "Unmarshal_RSS E xml = Inr rss"
  shows "fst (parseRSS2Feed E xml st) =
     Inr \<lparr>pTitle = cTitle (RSS_Channel rss),
          pItems = successes (conversions (convertItemToBookmark E)
                       ''Failed to convert RSS item to bookmark'' (cItems (RSS_Channel rss)) st),
          ItemCount = int (length (cItems (RSS_Channel rss)))\<rparr>"
  using fst_extractBookmarkItems [of E "RSS_Channel rss" st] assms
    conversions_all_succeed [of "convertItemToBookmark E", OF convertItemToBookmark_Inr]
  by (auto simp add: parseRSS2Feed_def split: prod.splits sum.splits)

lemma fst_parseRDFFeed:
  assumes "Unmarshal_RDF E xml = Inr rdf"
  shows "fst (parseRDFFeed E xml st) =
     Inr \<lparr>pTitle = rcTitle (RDF_Channel rdf),
          pItems = successes (conversions (convertRDFItemToBookmark E)
                       ''Failed to convert RDF item to bookmark'' (RDF_Items rdf) st),
          ItemCount = int (length (RDF_Items rdf))\<rparr>"
  using fst_extractRDFBookmarkItems [of E "RDF_Items rdf" st] assms
    conversions_all_succeed [of "convertRDFItemToBookmark E", OF convertRDFItemToBookmark_Inr]
  by (auto simp add: parseRDFFeed_def split: prod.splits sum.splits)

text \<open>
  C10.  Either extraction loop returns the bookmarks of the conversions that returned
  no error, in the order of the items; the list of conversion results is as long as
  the list of items, so nothing around a skipped item is moved, repeated or lost.  The
  parsed feed holds that list, and its item count is the length of the list.
\<close>

theorem extraction_keeps_order:
  assumes "Unmarshal_RSS E xml = Inr rss" and "Unmarshal_RDF E xml' = Inr rdf"
  shows
   "fst (extractBookmarkItems E channel st) =
      Inr (successes (conversions (convertItemToBookmark E)
             ''Failed to convert RSS item to bookmark'' (cItems channel) st))
    \<and> length (conversions (convertItemToBookmark E)
          ''Failed to convert RSS item to bookmark'' (cItems channel) st) = length (cItems channel)
    \<and> fst (extractRDFBookmarkItems E items st) =
      Inr (successes (conversions (convertRDFItemToBookmark E)
             ''Failed to convert RDF item to bookmark'' items st))
    \<and> length (conversions (convertRDFItemToBookmark E)
          ''Failed to convert RDF item to bookmark'' items st) = length items
    \<and> (\<exists>data. fst (parseRSS2Feed E xml st) = Inr data
          \<and> Inr (pItems data) = fst (extractBookmarkItems E (RSS_Channel rss) st)
          \<and> ItemCount data = int (length (pItems data)))
    \<and> (\<exists>data. fst (parseRDFFeed E xml' st) = Inr data
          \<and> Inr (pItems data) = fst (extractRDFBookmarkItems E (RDF_Items rdf) st)
          \<and> ItemCount data = int (length (pItems data)))"
  using fst_parseRSS2Feed [OF assms(1), of st] fst_parseRDFFeed [OF assms(2), of st]
    conversions_all_succeed [of "convertItemToBookmark E", OF convertItemToBookmark_Inr]
    conversions_all_succeed [of "convertRDFItemToBookmark E", OF convertRDFItemToBookmark_Inr]
  by (simp add: fst_extractBookmarkItems fst_extractRDFBookmarkItems)

theorem extraction_keeps_order_example:
  "(\<exists>data. fst (parseRSS2Feed exampleEnv ''<rss/>'' exampleState) = Inr data
       \<and> Inr (pItems data) = fst (extractBookmarkItems exampleEnv (RSS_Channel exampleRSS) exampleState)
       \<and> ItemCount data = int (length (pItems data)))
   \<and> (\<exists>data. fst (parseRDFFeed exampleEnv ''<rdf:RDF/>'' exampleState) = Inr data
       \<and> Inr (pItems data) = fst (extractRDFBookmarkItems exampleEnv (RDF_Items exampleRDF) exampleState)
       \<and> ItemCount data = int (length (pItems data)))"
proof -
  have h1: "Unmarshal_RSS exampleEnv ''<rss/>'' = Inr exampleRSS"
    by (simp add: exampleEnv_def)
  have h2: "Unmarshal_RDF exampleEnv ''<rdf:RDF/>'' = Inr exampleRDF"
    by (simp add: exampleEnv_def)
  from extraction_keeps_order [OF h1 h2, of "RSS_Channel exampleRSS" exampleState "[]"]
  show ?thesis by blast
qed


subsection \<open>Dates that no layout parses\<close>

lemma tryFormats_None:
  "\<forall>f\<in>set fs. time_Parse E f d = None \<Longrightarrow> tryFormats E fs d = None"
  by (induction fs) simp_all

lemma convertItemToBookmark_fallback:
  assumes "convertItemToBookmark E item s = (Inr b, s')"
    and "tryFormats E parseDate_formats (PubDate item) = None"
  shows "bTitle b = TrimSpace (iTitle item) \<and> bURL b = TrimSpace (iLink item)
         \<and> (\<exists>n. BookmarkedAt b = Format_RFC3339 (Now E n))"
  using assms
  by (auto simp add: convertItemToBookmark_def parseDate_def timeNow_def Let_def
      split: if_splits)

lemma convertRDFItemToBookmark_fallback:
  assumes "convertRDFItemToBookmark E item s = (Inr b, s')"
    and "tryFormats E parseRDFDate_formats (rDate item) = None"
    and "tryFormats E parseDate_formats (rDate item) = None"
  shows "bTitle b = TrimSpace (rTitle item) \<and> bURL b = TrimSpace (rLink item)
         \<and> (\<exists>n. BookmarkedAt b = Format_RFC3339 (Now E n))"
  using assms
  by (auto simp add: convertRDFItemToBookmark_def parseRDFDate_def parseDate_def timeNow_def
      Let_def split: if_splits)

lemma conversions_nth:
  assumes "\<And>item s. \<exists>b s'. conv item s = (Inr b, s')"
  shows "i < length items \<Longrightarrow>
         \<exists>s s'. conv (items ! i) s = (Inr (successes (conversions conv msg items st) ! i), s')"
proof (induction items arbitrary: i st)
  case Nil
  then show ?case by simp
next
  case (Cons item items)
  from assms obtain b s' where c: "conv item st = (Inr b, s')" by blast
  show ?case
  proof (cases i)
    case 0
    then show ?thesis using c by auto
  next
    case (Suc j)
    then have "j < length items" using Cons.prems by simp
    from Cons.IH [OF this, of s'] show ?thesis using c Suc by simp
  qed
qed


lemma RFC3339_known: "RFC3339 \<in> set (knownLayouts xml)"
  by (simp add: knownLayouts_def parseDate_formats_def parseRDFDate_formats_def)

text \<open>
  C5.  Let a document be unmarshalled by the parser that the format detection chooses,
  and let the date of its \<open>i\<close>-th item be parsed by none of the layouts that parser
  tries.  Then \<^verbatim>\<open>ParseRSSFeed\<close> returns a feed and no error; the feed has as many
  bookmarks as the document has items, and its item count says so; the \<open>i\<close>-th bookmark
  is the one of the \<open>i\<close>-th item, and its timestamp is a reading of the clock in RFC3339
  form: well-formed, not empty, and different from the text of the date.  Two facts
  about Go's library are assumed: the clock returns times of the years 0 to 9999, and
  \<^verbatim>\<open>time.Parse\<close> with the RFC3339 layout reads what \<^verbatim>\<open>Format\<close> with that layout wrote.
\<close>

theorem unparseable_date_falls_back_to_now:
  assumes entries: "feedEntries E xml = Some es"
    and i: "i < length es"
    and unparseable: "\<forall>layout \<in> set (knownLayouts xml). time_Parse E layout (snd (snd (es ! i))) = None"
    and clock: "\<forall>n. validTime (Now E n)"
    and reads_back: "\<forall>n. time_Parse E RFC3339 (Format_RFC3339 (Now E n)) \<noteq> None"
  shows "\<exists>data st' n. ParseRSSFeed E xml st = (Inr data, st')
       \<and> ItemCount data = int (length es) \<and> length (pItems data) = length es
       \<and> bTitle (pItems data ! i) = TrimSpace (fst (es ! i))
       \<and> bURL (pItems data ! i) = TrimSpace (fst (snd (es ! i)))
       \<and> BookmarkedAt (pItems data ! i) = Format_RFC3339 (Now E n)
       \<and> isRFC3339 (BookmarkedAt (pItems data ! i))
       \<and> BookmarkedAt (pItems data ! i) \<noteq> []
       \<and> BookmarkedAt (pItems data ! i) \<noteq> snd (snd (es ! i))"
proof -
  define st1 where "st1 = logMsg LevelDebug ''Starting RSS feed parsing'' st"
  have stamp: "isRFC3339 (Format_RFC3339 (Now E n)) \<and> Format_RFC3339 (Now E n) \<noteq> []
      \<and> Format_RFC3339 (Now E n) \<noteq> snd (snd (es ! i))" for n
  proof -
    from unparseable RFC3339_known
    have "time_Parse E RFC3339 (snd (snd (es ! i))) = None" by blast
    with reads_back have "Format_RFC3339 (Now E n) \<noteq> snd (snd (es ! i))" by metis
    with clock show ?thesis by (simp add: Format_RFC3339_valid Format_RFC3339_nonempty)
  qed
  consider (rdf) "isRDFFormat xml" | (rss) "\<not> isRDFFormat xml" by blast
  then show ?thesis
  proof cases
    case rdf
    from entries rdf obtain doc where u: "Unmarshal_RDF E xml = Inr doc"
      and es: "es = map (\<lambda>item. (rTitle item, rLink item, rDate item)) (RDF_Items doc)"
      by (auto simp: feedEntries_def split: sum.splits)
    define bs where "bs = successes (conversions (convertRDFItemToBookmark E)
                       ''Failed to convert RDF item to bookmark'' (RDF_Items doc) st1)"
    define data where "data = \<lparr>pTitle = rcTitle (RDF_Channel doc), pItems = bs,
          ItemCount = int (length (RDF_Items doc))\<rparr>"
    have P: "ParseRSSFeed E xml st = (Inr data, snd (parseRDFFeed E xml st1))"
      using fst_parseRDFFeed [OF u, of st1] rdf
      by (simp add: ParseRSSFeed_def Let_def prod_eq_iff data_def bs_def st1_def)
    have len: "length bs = length (RDF_Items doc)"
      unfolding bs_def
      by (rule conversions_all_succeed) (rule convertRDFItemToBookmark_Inr)
    from i es have i': "i < length (RDF_Items doc)" by simp
    from conversions_nth [of "convertRDFItemToBookmark E", OF convertRDFItemToBookmark_Inr i']
    obtain s s' where c: "convertRDFItemToBookmark E (RDF_Items doc ! i) s = (Inr (bs ! i), s')"
      unfolding bs_def by blast
    have d: "snd (snd (es ! i)) = rDate (RDF_Items doc ! i)"
      "fst (es ! i) = rTitle (RDF_Items doc ! i)"
      "fst (snd (es ! i)) = rLink (RDF_Items doc ! i)"
      using i' es by simp_all
    from unparseable rdf
    have "\<forall>f\<in>set parseRDFDate_formats. time_Parse E f (rDate (RDF_Items doc ! i)) = None"
      and "\<forall>f\<in>set parseDate_formats. time_Parse E f (rDate (RDF_Items doc ! i)) = None"
      by (simp_all add: knownLayouts_def d)
    then have "tryFormats E parseRDFDate_formats (rDate (RDF_Items doc ! i)) = None"
      and "tryFormats E parseDate_formats (rDate (RDF_Items doc ! i)) = None"
      by (simp_all add: tryFormats_None)
    from convertRDFItemToBookmark_fallback [OF c this]
    obtain n where b: "bTitle (bs ! i) = TrimSpace (rTitle (RDF_Items doc ! i))"
      "bURL (bs ! i) = TrimSpace (rLink (RDF_Items doc ! i))"
      "BookmarkedAt (bs ! i) = Format_RFC3339 (Now E n)" by blast
    have "ItemCount data = int (length es) \<and> length (pItems data) = length es
       \<and> bTitle (pItems data ! i) = TrimSpace (fst (es ! i))
       \<and> bURL (pItems data ! i) = TrimSpace (fst (snd (es ! i)))
       \<and> BookmarkedAt (pItems data ! i) = Format_RFC3339 (Now E n)
       \<and> isRFC3339 (BookmarkedAt (pItems data ! i))
       \<and> BookmarkedAt (pItems data ! i) \<noteq> []
       \<and> BookmarkedAt (pItems data ! i) \<noteq> snd (snd (es ! i))"
      using stamp [of n] b len d by (simp add: data_def es)
    with P show ?thesis by blast
  next
    case rss
    from entries rss obtain doc where u: "Unmarshal_RSS E xml = Inr doc"
      and es: "es = map (\<lambda>item. (iTitle item, iLink item, PubDate item)) (cItems (RSS_Channel doc))"
      by (auto simp: feedEntries_def split: sum.splits)
    define items where "items = cItems (RSS_Channel doc)"
    define bs where "bs = successes (conversions (convertItemToBookmark E)
                       ''Failed to convert RSS item to bookmark'' items st1)"
    define data where "data = \<lparr>pTitle = cTitle (RSS_Channel doc), pItems = bs,
          ItemCount = int (length items)\<rparr>"
    have P: "ParseRSSFeed E xml st = (Inr data, snd (parseRSS2Feed E xml st1))"
      using fst_parseRSS2Feed [OF u, of st1] rss
      by (simp add: ParseRSSFeed_def Let_def prod_eq_iff data_def bs_def st1_def items_def)
    have len: "length bs = length items"
      unfolding bs_def
      by (rule conversions_all_succeed) (rule convertItemToBookmark_Inr)
    from i es have i': "i < length items" by (simp add: items_def)
    from conversions_nth [of "convertItemToBookmark E", OF convertItemToBookmark_Inr i']
    obtain s s' where c: "convertItemToBookmark E (items ! i) s = (Inr (bs ! i), s')"
      unfolding bs_def by blast
    have d: "snd (snd (es ! i)) = PubDate (items ! i)"
      "fst (es ! i) = iTitle (items ! i)"
      "fst (snd (es ! i)) = iLink (items ! i)"
      using i' es by (simp_all add: items_def)
    from unparseable rss
    have "\<forall>f\<in>set parseDate_formats. time_Parse E f (PubDate (items ! i)) = None"
      by (simp add: knownLayouts_def d)
    then have "tryFormats E parseDate_formats (PubDate (items ! i)) = None"
      by (simp add: tryFormats_None)
    from convertItemToBookmark_fallback [OF c this]
    obtain n where b: "bTitle (bs ! i) = TrimSpace (iTitle (items ! i))"
      "bURL (bs ! i) = TrimSpace (iLink (items ! i))"
      "BookmarkedAt (bs ! i) = Format_RFC3339 (Now E n)" by blast
    have "ItemCount data = int (length es) \<and> length (pItems data) = length es
       \<and> bTitle (pItems data ! i) = TrimSpace (fst (es ! i))
       \<and> bURL (pItems data ! i) = TrimSpace (fst (snd (es ! i)))
       \<and> BookmarkedAt (pItems data ! i) = Format_RFC3339 (Now E n)
       \<and> isRFC3339 (BookmarkedAt (pItems data ! i))
       \<and> BookmarkedAt (pItems data ! i) \<noteq> []
       \<and> BookmarkedAt (pItems data ! i) \<noteq> snd (snd (es ! i))"
      using stamp [of n] b len d by (simp add: data_def es items_def)
    with P show ?thesis by blast
  qed
qed

lemma Format_RFC3339_exampleTime: "Format_RFC3339 exampleTime = ''2026-11-01T06:43:05+09:00''"
  by code_simp

theorem unparseable_date_falls_back_to_now_example:
  "(\<exists>data st' n. ParseRSSFeed exampleEnv ''<rss/>'' exampleState = (Inr data, st')
       \<and> ItemCount data = 2 \<and> length (pItems data) = 2
       \<and> bTitle (pItems data ! 1) = TrimSpace '' Isabelle ''
       \<and> bURL (pItems data ! 1) = TrimSpace ''https://isabelle.in.tum.de/''
       \<and> BookmarkedAt (pItems data ! 1) = Format_RFC3339 (Now exampleEnv n)
       \<and> isRFC3339 (BookmarkedAt (pItems data ! 1))
       \<and> BookmarkedAt (pItems data ! 1) \<noteq> []
       \<and> BookmarkedAt (pItems data ! 1) \<noteq> ''yesterday'')
   \<and> (\<exists>data st' n. ParseRSSFeed exampleEnv ''<rdf:RDF/>'' exampleState = (Inr data, st')
       \<and> ItemCount data = 1 \<and> length (pItems data) = 1
       \<and> bTitle (pItems data ! 0) = TrimSpace ''Go''
       \<and> bURL (pItems data ! 0) = TrimSpace ''https://go.dev/''
       \<and> BookmarkedAt (pItems data ! 0) = Format_RFC3339 (Now exampleEnv n)
       \<and> isRFC3339 (BookmarkedAt (pItems data ! 0))
       \<and> BookmarkedAt (pItems data ! 0) \<noteq> []
       \<and> BookmarkedAt (pItems data ! 0) \<noteq> ''last week'')"
proof -
  have clock: "\<forall>n. validTime (Now exampleEnv n)"
    by (simp add: exampleEnv_def exampleTime_def validTime_def daysIn_def)
  have reads: "\<forall>n. time_Parse exampleEnv RFC3339 (Format_RFC3339 (Now exampleEnv n)) \<noteq> None"
    by (simp add: exampleEnv_def Format_RFC3339_exampleTime)
  have rss: "feedEntries exampleEnv ''<rss/>'' =
      Some [(''Go'', ''https://go.dev/'', ''2026-11-01T06:43:05+09:00''),
            ('' Isabelle '', ''https://isabelle.in.tum.de/'', ''yesterday'')]"
    by (simp add: feedEntries_def isRDFFormat_def exampleEnv_def exampleRSS_def)
  have rdf: "feedEntries exampleEnv ''<rdf:RDF/>'' = Some [(''Go'', ''https://go.dev/'', ''last week'')]"
    by (simp add: feedEntries_def isRDFFormat_def exampleEnv_def exampleRDF_def)
  have i1: "1 < length [(''Go'', ''https://go.dev/'', ''2026-11-01T06:43:05+09:00''),
            ('' Isabelle '', ''https://isabelle.in.tum.de/'', ''yesterday'')]" by simp
  have i0: "0 < length [(''Go'', ''https://go.dev/'', ''last week'')]" by simp
  have u1: "\<forall>layout \<in> set (knownLayouts ''<rss/>'').
      time_Parse exampleEnv layout
        (snd (snd ([(''Go'', ''https://go.dev/'', ''2026-11-01T06:43:05+09:00''),
            ('' Isabelle '', ''https://isabelle.in.tum.de/'', ''yesterday'')] ! 1))) = None"
    by (simp add: exampleEnv_def)
  have u0: "\<forall>layout \<in> set (knownLayouts ''<rdf:RDF/>'').
      time_Parse exampleEnv layout
        (snd (snd ([(''Go'', ''https://go.dev/'', ''last week'')] ! 0))) = None"
    by (simp add: exampleEnv_def)
  from unparseable_date_falls_back_to_now [OF rss i1 u1 clock reads, of exampleState]
    unparseable_date_falls_back_to_now [OF rdf i0 u0 clock reads, of exampleState]
  show ?thesis by (simp add: numeral_2_eq_2)
qed


subsection \<open>Comments\<close>

lemma hasTag_Nil [simp]: "\<not> hasTag []"
  by (simp add: hasTag_def)

lemma hasTag_Cons:
  "hasTag (c # cs) \<longleftrightarrow> (c = CHR ''<'' \<and> CHR ''>'' \<in> set cs) \<or> hasTag cs"
proof
  assume "hasTag (c # cs)"
  then obtain pre mid post where s: "c # cs = pre @ ''<'' @ mid @ ''>'' @ post"
    unfolding hasTag_def by blast
  show "(c = CHR ''<'' \<and> CHR ''>'' \<in> set cs) \<or> hasTag cs"
  proof (cases pre)
    case Nil
    with s show ?thesis by auto
  next
    case (Cons a pre')
    with s have "cs = pre' @ ''<'' @ mid @ ''>'' @ post" by simp
    then show ?thesis unfolding hasTag_def by blast
  qed
next
  assume "(c = CHR ''<'' \<and> CHR ''>'' \<in> set cs) \<or> hasTag cs"
  then show "hasTag (c # cs)"
  proof
    assume a: "c = CHR ''<'' \<and> CHR ''>'' \<in> set cs"
    then obtain mid post where "cs = mid @ CHR ''>'' # post" by (auto dest: split_list)
    with a have "c # cs = [] @ ''<'' @ mid @ ''>'' @ post" by simp
    then show ?thesis unfolding hasTag_def by blast
  next
    assume "hasTag cs"
    then obtain pre mid post where "cs = pre @ ''<'' @ mid @ ''>'' @ post"
      unfolding hasTag_def by blast
    then have "c # cs = (c # pre) @ ''<'' @ mid @ ''>'' @ post" by simp
    then show ?thesis unfolding hasTag_def by blast
  qed
qed

lemma set_tl: "set (tl xs) \<subseteq> set xs"
  by (cases xs) auto

lemma set_tl_dropWhile: "set (tl (dropWhile P xs)) \<subseteq> set xs"
proof -
  have "set (tl (dropWhile P xs)) \<subseteq> set (dropWhile P xs)"
    by (rule set_tl)
  also have "\<dots> \<subseteq> set xs" by (auto dest: set_dropWhileD)
  finally show ?thesis .
qed

lemma set_stripHTMLTags: "set (stripHTMLTags s) \<subseteq> set s"
proof (induction s rule: stripHTMLTags.induct)
  case 1
  show ?case by simp
next
  case (2 c cs)
  show ?case
  proof (cases "c = CHR ''<'' \<and> CHR ''>'' \<in> set cs")
    case True
    with 2 have "set (stripHTMLTags (c # cs)) \<subseteq> set (tl (dropWhile (\<lambda>x. x \<noteq> CHR ''>'') cs))"
      by simp
    also have "\<dots> \<subseteq> set cs" by (rule set_tl_dropWhile)
    finally show ?thesis by auto
  next
    case False
    with 2 show ?thesis by auto
  qed
qed

lemma stripHTMLTags_no_tag: "\<not> hasTag (stripHTMLTags s)"
proof (induction s rule: stripHTMLTags.induct)
  case 1
  show ?case by simp
next
  case (2 c cs)
  show ?case
  proof (cases "c = CHR ''<'' \<and> CHR ''>'' \<in> set cs")
    case True
    with 2 show ?thesis by simp
  next
    case False
    with 2 have "\<not> hasTag (stripHTMLTags cs)" by simp
    moreover have "\<not> (c = CHR ''<'' \<and> CHR ''>'' \<in> set (stripHTMLTags cs))"
      using False set_stripHTMLTags [of cs] by auto
    moreover have "stripHTMLTags (c # cs) = c # stripHTMLTags cs"
      using False by auto
    ultimately show ?thesis by (simp add: hasTag_Cons)
  qed
qed

lemma stripHTMLTags_id: "\<not> hasTag s \<Longrightarrow> stripHTMLTags s = s"
  by (induction s) (auto simp: hasTag_Cons)

lemma stripHTMLTags_first_tag:
  assumes "CHR ''<'' \<notin> set pre" "CHR ''>'' \<notin> set mid"
  shows "stripHTMLTags (pre @ ''<'' @ mid @ ''>'' @ post) = pre @ stripHTMLTags post"
  using assms(1)
proof (induction pre)
  case Nil
  have "dropWhile (\<lambda>x. x \<noteq> CHR ''>'') (mid @ CHR ''>'' # post) = CHR ''>'' # post"
    using assms(2) by (auto simp add: dropWhile_append3 dropWhile_eq_Nil_conv)
  then show ?case by simp
next
  case (Cons c pre)
  then show ?case by auto
qed

lemma find_space_None: "find P unicodeSpaces = None \<longleftrightarrow> (\<forall>p\<in>set unicodeSpaces. \<not> P p)"
  by (auto simp add: find_None_iff)

lemma trimLeftSpace_no_space:
  "find (\<lambda>p. prefix p (trimLeftSpace s)) unicodeSpaces = None"
proof (induction s rule: trimLeftSpace.induct)
  case (1 s)
  show ?case
  proof (cases "find (\<lambda>p. prefix p s) unicodeSpaces")
    case None
    then show ?thesis by (subst trimLeftSpace.simps) simp
  next
    case (Some p)
    with 1 show ?thesis by (subst trimLeftSpace.simps) simp
  qed
qed

lemma trimRightSpace_no_space:
  "find (\<lambda>p. suffix p (trimRightSpace s)) unicodeSpaces = None"
proof (induction s rule: trimRightSpace.induct)
  case (1 s)
  show ?case
  proof (cases "find (\<lambda>p. suffix p s) unicodeSpaces")
    case None
    then show ?thesis by (subst trimRightSpace.simps) simp
  next
    case (Some p)
    with 1 show ?thesis by (subst trimRightSpace.simps) simp
  qed
qed

lemma trimRightSpace_prefix: "prefix (trimRightSpace s) s"
proof (induction s rule: trimRightSpace.induct)
  case (1 s)
  show ?case
  proof (cases "find (\<lambda>p. suffix p s) unicodeSpaces")
    case None
    then show ?thesis by (subst trimRightSpace.simps) simp
  next
    case (Some p)
    with 1 have "prefix (trimRightSpace (take (length s - length p) s)) (take (length s - length p) s)"
      by simp
    also have "prefix (take (length s - length p) s) s" by (rule take_is_prefix)
    finally show ?thesis using Some by (subst trimRightSpace.simps) simp
  qed
qed

lemma trimLeftSpace_id:
  "find (\<lambda>p. prefix p s) unicodeSpaces = None \<Longrightarrow> trimLeftSpace s = s"
  by (subst trimLeftSpace.simps) simp

lemma trimRightSpace_id:
  "find (\<lambda>p. suffix p s) unicodeSpaces = None \<Longrightarrow> trimRightSpace s = s"
  by (subst trimRightSpace.simps) simp

lemma TrimSpace_idem: "TrimSpace (TrimSpace s) = TrimSpace s"
proof -
  define t where "t = trimRightSpace (trimLeftSpace s)"
  have "prefix t (trimLeftSpace s)" unfolding t_def by (rule trimRightSpace_prefix)
  then have "\<forall>p\<in>set unicodeSpaces. \<not> prefix p t"
    using trimLeftSpace_no_space [of s] by (auto simp: find_space_None dest: prefix_order.trans)
  then have "trimLeftSpace t = t" by (simp add: trimLeftSpace_id find_space_None)
  moreover have "trimRightSpace t = t"
    unfolding t_def by (rule trimRightSpace_id) (rule trimRightSpace_no_space)
  ultimately show ?thesis by (simp add: TrimSpace_def t_def [symmetric])
qed

lemma TrimSpace_Nil: "TrimSpace [] = []"
  by code_simp

lemma extractComment_trimmed: "TrimSpace (extractComment d) = extractComment d"
  by (simp add: extractComment_def Let_def TrimSpace_idem TrimSpace_Nil)

text \<open>
  C8 as it is stated fails where it counts characters: a comment of two hundred
  Japanese letters has six hundred bytes, and \<^verbatim>\<open>len\<close> counts bytes, so the comment is
  dropped although it is far shorter than 500 characters.
\<close>

theorem extractComment_counts_bytes:
  "extractComment exampleJapanese \<noteq>
     (if 500 < utf8Chars (TrimSpace (stripHTMLTags exampleJapanese)) then []
      else TrimSpace (stripHTMLTags exampleJapanese))"
  by code_simp

lemma extractComment_exampleJapanese:
  "utf8Chars (TrimSpace (stripHTMLTags exampleJapanese)) = 200
   \<and> length (TrimSpace (stripHTMLTags exampleJapanese)) = 600
   \<and> extractComment exampleJapanese = []"
  by code_simp

text \<open>
  C8, amended.  The comment is the description with its markup tags stripped and the
  surrounding white space trimmed, unless that text is longer than 500 bytes, in which
  case the comment is empty.  Stripping leaves no tag behind (no \<open><\<close> with a \<open>>\<close>
  after it), leaves a text without tags as it is, and removes the leftmost tag from
  its \<open><\<close> to the first \<open>>\<close> after it, going on behind it.  The comment has no white
  space at either end.  \<open><b>hello</b> world\<close> becomes \<open>hello world\<close>.
\<close>

theorem extractComment_strips_trims_limits:
  "extractComment d =
     (if 500 < length (TrimSpace (stripHTMLTags d)) then [] else TrimSpace (stripHTMLTags d))
   \<and> \<not> hasTag (stripHTMLTags d)
   \<and> (\<not> hasTag d \<longrightarrow> stripHTMLTags d = d)
   \<and> (CHR ''<'' \<notin> set pre \<and> CHR ''>'' \<notin> set mid \<longrightarrow>
        stripHTMLTags (pre @ ''<'' @ mid @ ''>'' @ post) = pre @ stripHTMLTags post)
   \<and> TrimSpace (extractComment d) = extractComment d
   \<and> extractComment ''<b>hello</b> world'' = ''hello world''"
proof (intro conjI impI)
  show "extractComment d =
     (if 500 < length (TrimSpace (stripHTMLTags d)) then [] else TrimSpace (stripHTMLTags d))"
    by (simp add: extractComment_def Let_def)
  show "\<not> hasTag (stripHTMLTags d)"
    by (rule stripHTMLTags_no_tag)
  show "stripHTMLTags d = d" if "\<not> hasTag d"
    using that by (rule stripHTMLTags_id)
  show "stripHTMLTags (pre @ ''<'' @ mid @ ''>'' @ post) = pre @ stripHTMLTags post"
    if "CHR ''<'' \<notin> set pre \<and> CHR ''>'' \<notin> set mid"
    using that stripHTMLTags_first_tag [of pre mid post] by simp
  show "TrimSpace (extractComment d) = extractComment d"
    by (rule extractComment_trimmed)
  show "extractComment ''<b>hello</b> world'' = ''hello world''"
    by code_simp
qed

theorem extractComment_strips_trims_limits_example:
  "stripHTMLTags ''1 < 2'' = ''1 < 2''
   \<and> stripHTMLTags (''a > '' @ ''<'' @ ''br /'' @ ''>'' @ '' c'') = ''a > '' @ stripHTMLTags '' c''"
proof -
  have h1: "\<not> hasTag ''1 < 2''" by (simp add: hasTag_Cons)
  have h2: "CHR ''<'' \<notin> set ''a > '' \<and> CHR ''>'' \<notin> set ''br /''" by simp
  from extractComment_strips_trims_limits
         [where d = "''1 < 2''" and pre = "''a > ''" and mid = "''br /''" and post = "'' c''"]
       h1 h2
  show ?thesis by blast
qed

end
